theory Spec2Isabelle
  imports Complex_Main
begin

section \<open>Data model of \<open>src/lib/real-time-gesture-detector.ts\<close>\<close>

text \<open>
  The TypeScript union of string literals \<open>Gesture\<close> is a closed vocabulary of 44 symbols.
  The digits "0" .. "9" are the constructors \<open>Digit_0\<close> .. \<open>Digit_9\<close>, the letters "a" .. "z"
  are \<open>Letter_a\<close> .. \<open>Letter_z\<close>.
\<close>

datatype Gesture =
    Idle | Hello | Thanks | Help | Wait | Repeat | Yes | No
  | Letter_a | Letter_b | Letter_c | Letter_d | Letter_e | Letter_f | Letter_g | Letter_h
  | Letter_i | Letter_j | Letter_k | Letter_l | Letter_m | Letter_n | Letter_o | Letter_p
  | Letter_q | Letter_r | Letter_s | Letter_t | Letter_u | Letter_v | Letter_w | Letter_x
  | Letter_y | Letter_z
  | Digit_0 | Digit_1 | Digit_2 | Digit_3 | Digit_4 | Digit_5 | Digit_6 | Digit_7
  | Digit_8 | Digit_9

text \<open>
  A JavaScript \<open>number\<close> that carries a measured quantity (a coordinate, a score, a
  confidence) is modelled as a real number: rounding, infinities and NaN are outside the model.
  A \<open>number\<close> that the program only ever uses as an integer (a time stamp of \<open>Date.now()\<close>,
  the stability threshold, the cooldown in milliseconds) is an \<open>int\<close>.
\<close>

record HandLandmark =
  x :: real
  y :: real
  z :: real

record GesturePrediction =
  gesture :: Gesture
  confidence :: real
  text' :: string
  isStable :: bool

text \<open>The mutable fields of the class \<open>RealTimeGestureDetector\<close> that the engine reads or writes.\<close>

record EngineState =
  gestureHistory :: "Gesture list"
  lastStableGesture :: Gesture
  stabilityThreshold :: int
  confidenceThreshold :: real
  lastGestureTime :: int
  gestureCooldown :: int

definition initialState :: EngineState where
  "initialState =
     \<lparr> gestureHistory = [], lastStableGesture = Idle, stabilityThreshold = 3,
       confidenceThreshold = 7 / 10, lastGestureTime = 0, gestureCooldown = 1000 \<rparr>"

text \<open>The table \<open>gestureToText\<close>.\<close>

fun gestureToText :: "Gesture \<Rightarrow> string" where
  "gestureToText Idle = ''''"
| "gestureToText Hello = ''Hello''"
| "gestureToText Thanks = ''Thank you''"
| "gestureToText Help = ''Help''"
| "gestureToText Wait = ''Wait''"
| "gestureToText Repeat = ''Repeat''"
| "gestureToText Yes = ''Yes''"
| "gestureToText No = ''No''"
| "gestureToText Letter_a = ''A''"
| "gestureToText Letter_b = ''B''"
| "gestureToText Letter_c = ''C''"
| "gestureToText Letter_d = ''D''"
| "gestureToText Letter_e = ''E''"
| "gestureToText Letter_f = ''F''"
| "gestureToText Letter_g = ''G''"
| "gestureToText Letter_h = ''H''"
| "gestureToText Letter_i = ''I''"
| "gestureToText Letter_j = ''J''"
| "gestureToText Letter_k = ''K''"
| "gestureToText Letter_l = ''L''"
| "gestureToText Letter_m = ''M''"
| "gestureToText Letter_n = ''N''"
| "gestureToText Letter_o = ''O''"
| "gestureToText Letter_p = ''P''"
| "gestureToText Letter_q = ''Q''"
| "gestureToText Letter_r = ''R''"
| "gestureToText Letter_s = ''S''"
| "gestureToText Letter_t = ''T''"
| "gestureToText Letter_u = ''U''"
| "gestureToText Letter_v = ''V''"
| "gestureToText Letter_w = ''W''"
| "gestureToText Letter_x = ''X''"
| "gestureToText Letter_y = ''Y''"
| "gestureToText Letter_z = ''Z''"
| "gestureToText Digit_0 = ''0''"
| "gestureToText Digit_1 = ''1''"
| "gestureToText Digit_2 = ''2''"
| "gestureToText Digit_3 = ''3''"
| "gestureToText Digit_4 = ''4''"
| "gestureToText Digit_5 = ''5''"
| "gestureToText Digit_6 = ''6''"
| "gestureToText Digit_7 = ''7''"
| "gestureToText Digit_8 = ''8''"
| "gestureToText Digit_9 = ''9''"

section \<open>History buffer, stability and confidence\<close>

text \<open>
  \<open>Array.prototype.slice(start)\<close> with an integer \<open>start\<close>: a negative \<open>start\<close> counts from
  the end and is clamped at the first element, a non-negative one is clamped at the length.
\<close>

definition js_slice :: "int \<Rightarrow> 'a list \<Rightarrow> 'a list" where
  "js_slice start xs =
     (let len = int (length xs);
          k = (if start < 0 then max (len + start) 0 else min start len)
      in drop (nat k) xs)"

text \<open>
  The first three lines of \<open>updateGestureHistory\<close>: \<open>push\<close>, then one \<open>shift\<close> when the
  length has passed 5.
\<close>

definition pushHistory :: "Gesture \<Rightarrow> Gesture list \<Rightarrow> Gesture list" where
  "pushHistory g h = (let h1 = h @ [g] in if length h1 > 5 then tl h1 else h1)"

definition isGestureStable :: "EngineState \<Rightarrow> Gesture \<Rightarrow> bool" where
  "isGestureStable s g =
     (if int (length (gestureHistory s)) < stabilityThreshold s then False
      else (let recentGestures = js_slice (- stabilityThreshold s) (gestureHistory s)
            in list_all (\<lambda>r. r = g) recentGestures))"

definition calculateConfidence :: "EngineState \<Rightarrow> Gesture \<Rightarrow> real" where
  "calculateConfidence s g =
     (if length (gestureHistory s) = 0 then 0
      else (let recentGestures = js_slice (- 5) (gestureHistory s);
                sameGestures = length (filter (\<lambda>r. r = g) recentGestures)
            in real sameGestures / real (length recentGestures)))"

definition resetToIdle :: "EngineState \<Rightarrow> EngineState" where
  "resetToIdle s = s\<lparr> gestureHistory := [], lastStableGesture := Idle \<rparr>"

text \<open>
  \<open>updateConfig\<close>: each field of the argument object is optional, and a field that is
  present is stored as it is.
\<close>

definition updateConfig ::
  "real option \<Rightarrow> int option \<Rightarrow> int option \<Rightarrow> EngineState \<Rightarrow> EngineState" where
  "updateConfig newConfidenceThreshold newStabilityThreshold newGestureCooldown s =
     (let s1 = (case newConfidenceThreshold of None \<Rightarrow> s
                | Some v \<Rightarrow> s\<lparr> confidenceThreshold := v \<rparr>);
          s2 = (case newStabilityThreshold of None \<Rightarrow> s1
                | Some v \<Rightarrow> s1\<lparr> stabilityThreshold := v \<rparr>);
          s3 = (case newGestureCooldown of None \<Rightarrow> s2
                | Some v \<Rightarrow> s2\<lparr> gestureCooldown := v \<rparr>)
      in s3)"

text \<open>
  \<open>updateGestureHistory\<close> returns nothing; what it does besides changing the state is to
  call the consumer's callback or not. The model returns the new state together with the way
  the call ended: the early \<open>return\<close> of the cooldown check, the call of \<open>onGestureDetected\<close>
  with the prediction, or the end of the body without a call. \<open>now\<close> is the value that
  \<open>Date.now()\<close> returned.
\<close>

datatype Outcome = Suppressed | Emitted GesturePrediction | Silent

definition updateGestureHistory :: "int \<Rightarrow> Gesture \<Rightarrow> EngineState \<Rightarrow> EngineState \<times> Outcome" where
  "updateGestureHistory now g s =
     (let s1 = s\<lparr> gestureHistory := pushHistory g (gestureHistory s) \<rparr>;
          stable = isGestureStable s1 g
      in if now - lastGestureTime s1 < gestureCooldown s1 \<and> \<not> stable then (s1, Suppressed)
         else if stable \<and> g \<noteq> lastStableGesture s1 then
           (let s2 = s1\<lparr> lastStableGesture := g, lastGestureTime := now \<rparr>;
                prediction = \<lparr> gesture = g, confidence = calculateConfidence s2 g,
                               text' = gestureToText g, isStable = True \<rparr>
            in (s2, Emitted prediction))
         else (s1, Silent))"

text \<open>The predictions handed to the callback by one call: none or one.\<close>

fun delivered :: "Outcome \<Rightarrow> GesturePrediction list" where
  "delivered (Emitted p) = [p]"
| "delivered Suppressed = []"
| "delivered Silent = []"

section \<open>Geometric predicates\<close>

definition isFingerExtended :: "HandLandmark \<Rightarrow> HandLandmark \<Rightarrow> HandLandmark \<Rightarrow> bool" where
  "isFingerExtended tip base mcp =
     (let tipToBase = sqrt ((x tip - x base)\<^sup>2 + (y tip - y base)\<^sup>2 + (z tip - z base)\<^sup>2);
          tipToMcp = sqrt ((x tip - x mcp)\<^sup>2 + (y tip - y mcp)\<^sup>2 + (z tip - z mcp)\<^sup>2)
      in tipToBase > tipToMcp)"

definition isCurvedGesture :: "HandLandmark list \<Rightarrow> bool" where
  "isCurvedGesture landmarks =
     (let indexTip = landmarks ! 8; middleTip = landmarks ! 12;
          ringTip = landmarks ! 16; pinkyTip = landmarks ! 20;
          tips = [indexTip, middleTip, ringTip, pinkyTip];
          distances = map (\<lambda>i. if i = 0 then 0
                                else sqrt ((x (tips ! i) - x (tips ! (i - 1)))\<^sup>2 +
                                           (y (tips ! i) - y (tips ! (i - 1)))\<^sup>2))
                          [0 ..< length tips]
      in list_all (\<lambda>i. i = 0 \<or> distances ! i < 1 / 10) [0 ..< length distances])"

definition isThumbIndexTouching :: "HandLandmark \<Rightarrow> HandLandmark \<Rightarrow> bool" where
  "isThumbIndexTouching thumbTip indexTip =
     (let distance = sqrt ((x thumbTip - x indexTip)\<^sup>2 + (y thumbTip - y indexTip)\<^sup>2 +
                           (z thumbTip - z indexTip)\<^sup>2)
      in distance < 5 / 100)"

definition isThumbBetweenFingers :: "HandLandmark list \<Rightarrow> bool" where
  "isThumbBetweenFingers landmarks =
     (let thumbTip = landmarks ! 4; indexBase = landmarks ! 5; middleBase = landmarks ! 9;
          thumbToIndex = sqrt ((x thumbTip - x indexBase)\<^sup>2 + (y thumbTip - y indexBase)\<^sup>2);
          thumbToMiddle = sqrt ((x thumbTip - x middleBase)\<^sup>2 + (y thumbTip - y middleBase)\<^sup>2)
      in thumbToIndex < 1 / 10 \<and> thumbToMiddle < 1 / 10)"

definition isThumbIndexCircle :: "HandLandmark \<Rightarrow> HandLandmark \<Rightarrow> bool" where
  "isThumbIndexCircle thumbTip indexTip =
     (let distance = sqrt ((x thumbTip - x indexTip)\<^sup>2 + (y thumbTip - y indexTip)\<^sup>2)
      in distance < 8 / 100 \<and> distance > 3 / 100)"

definition isIndexMiddleCrossed :: "HandLandmark list \<Rightarrow> bool" where
  "isIndexMiddleCrossed landmarks =
     (let indexTip = landmarks ! 8; middleTip = landmarks ! 12;
          indexToMiddle = sqrt ((x indexTip - x middleTip)\<^sup>2 + (y indexTip - y middleTip)\<^sup>2)
      in indexToMiddle < 5 / 100)"

definition isWaveGesture :: "HandLandmark list \<Rightarrow> bool" where
  "isWaveGesture landmarks =
     (let wrist = landmarks ! 0; indexTip = landmarks ! 8;
          horizontalMovement = \<bar>x indexTip - x wrist\<bar>
      in horizontalMovement > 1 / 10)"

definition isThumbsUp :: "HandLandmark list \<Rightarrow> bool" where
  "isThumbsUp landmarks =
     (let thumbTip = landmarks ! 4; thumbBase = landmarks ! 1; indexTip = landmarks ! 8;
          thumbExtended = isFingerExtended thumbTip thumbBase (landmarks ! 2);
          indexBent = (\<not> isFingerExtended indexTip (landmarks ! 5) (landmarks ! 6))
      in thumbExtended \<and> indexBent)"

definition isThumbsDown :: "HandLandmark list \<Rightarrow> bool" where
  "isThumbsDown landmarks =
     (let thumbTip = landmarks ! 4; thumbBase = landmarks ! 1
      in y thumbTip > y thumbBase)"

definition isStopGesture :: "HandLandmark list \<Rightarrow> bool" where
  "isStopGesture landmarks =
     (let fingers = [landmarks ! 8, landmarks ! 12, landmarks ! 16, landmarks ! 20];
          allExtended = list_all (\<lambda>i. isFingerExtended (fingers ! i) (landmarks ! (5 + i * 4))
                                          (landmarks ! (6 + i * 4)))
                                 [0 ..< length fingers]
      in allExtended)"

definition isPointingGesture :: "HandLandmark list \<Rightarrow> bool" where
  "isPointingGesture landmarks =
     (let indexTip = landmarks ! 8; indexBase = landmarks ! 5;
          middleTip = landmarks ! 12; middleBase = landmarks ! 9;
          indexExtended = isFingerExtended indexTip indexBase (landmarks ! 6);
          middleBent = (\<not> isFingerExtended middleTip middleBase (landmarks ! 10))
      in indexExtended \<and> middleBent)"

text \<open>
  The other detector, \<open>MediaPipeGestureDetector\<close> of \<open>src/lib/mediapipe-detector.ts\<close>, has
  its own \<open>calculateDistance\<close> and its own \<open>isFingerExtended(tip, pip, mcp, wrist)\<close>; the
  latter is \<open>mp_isFingerExtended\<close> here, since the two methods share their name.
\<close>

definition calculateDistance :: "HandLandmark \<Rightarrow> HandLandmark \<Rightarrow> real" where
  "calculateDistance point1 point2 =
     (let dx = x point1 - x point2; dy = y point1 - y point2; dz = z point1 - z point2
      in sqrt (dx * dx + dy * dy + dz * dz))"

definition mp_isFingerExtended ::
  "HandLandmark \<Rightarrow> HandLandmark \<Rightarrow> HandLandmark \<Rightarrow> HandLandmark \<Rightarrow> bool" where
  "mp_isFingerExtended tip pip mcp wrist =
     (let tipToWrist = calculateDistance tip wrist;
          mcpToWristDistance = calculateDistance mcp wrist
      in tipToWrist > mcpToWristDistance * (12 / 10))"

section \<open>The classifier\<close>

text \<open>
  Reading \<open>landmarks[i]\<close> beyond the end of the array gives \<open>undefined\<close>, and reading a
  coordinate of \<open>undefined\<close> throws a \<open>TypeError\<close>. \<open>detectASLLetter\<close> computes the five
  extension flags before its first rule, the last of them from \<open>landmarks[20]\<close>, so it throws
  on every array of fewer than 21 landmarks and on no other.
\<close>

datatype js_error = TypeError

definition detectASLLetter :: "HandLandmark list \<Rightarrow> js_error + Gesture" where
  "detectASLLetter landmarks =
   (if length landmarks < 21 then Inl TypeError else
    (let thumbTip = landmarks ! 4; indexTip = landmarks ! 8; middleTip = landmarks ! 12;
         ringTip = landmarks ! 16; pinkyTip = landmarks ! 20;
         thumbBase = landmarks ! 1; indexBase = landmarks ! 5; middleBase = landmarks ! 9;
         ringBase = landmarks ! 13; pinkyBase = landmarks ! 17;
         thumbExtended = isFingerExtended thumbTip thumbBase (landmarks ! 2);
         indexExtended = isFingerExtended indexTip indexBase (landmarks ! 6);
         middleExtended = isFingerExtended middleTip middleBase (landmarks ! 10);
         ringExtended = isFingerExtended ringTip ringBase (landmarks ! 14);
         pinkyExtended = isFingerExtended pinkyTip pinkyBase (landmarks ! 18)
     in Inr (
      if indexExtended \<and> \<not> middleExtended \<and> \<not> ringExtended \<and> \<not> pinkyExtended \<and> \<not> thumbExtended then Digit_1
      else if indexExtended \<and> middleExtended \<and> \<not> ringExtended \<and> \<not> pinkyExtended \<and> \<not> thumbExtended then Digit_2
      else if indexExtended \<and> middleExtended \<and> ringExtended \<and> \<not> pinkyExtended \<and> \<not> thumbExtended then Digit_3
      else if indexExtended \<and> middleExtended \<and> ringExtended \<and> pinkyExtended \<and> \<not> thumbExtended then Digit_4
      else if indexExtended \<and> middleExtended \<and> ringExtended \<and> pinkyExtended \<and> thumbExtended then Digit_5
      else if indexExtended \<and> middleExtended \<and> ringExtended \<and> pinkyExtended \<and> \<not> thumbExtended then Digit_6
      else if indexExtended \<and> middleExtended \<and> ringExtended \<and> pinkyExtended \<and> thumbExtended then Digit_7
      else if indexExtended \<and> middleExtended \<and> ringExtended \<and> pinkyExtended \<and> thumbExtended then Digit_8
      else if indexExtended \<and> middleExtended \<and> ringExtended \<and> pinkyExtended \<and> thumbExtended then Digit_9
      else if indexExtended \<and> middleExtended \<and> ringExtended \<and> pinkyExtended \<and> thumbExtended then Digit_0
      else if \<not> indexExtended \<and> \<not> middleExtended \<and> \<not> ringExtended \<and> \<not> pinkyExtended \<and> thumbExtended then Letter_a
      else if indexExtended \<and> middleExtended \<and> ringExtended \<and> pinkyExtended \<and> \<not> thumbExtended then Letter_b
      else if isCurvedGesture landmarks then Letter_c
      else if indexExtended \<and> middleExtended \<and> \<not> ringExtended \<and> \<not> pinkyExtended \<and> \<not> thumbExtended then Letter_d
      else if \<not> indexExtended \<and> \<not> middleExtended \<and> \<not> ringExtended \<and> \<not> pinkyExtended \<and> \<not> thumbExtended then Letter_e
      else if isThumbIndexTouching thumbTip indexTip then Letter_f
      else if indexExtended \<and> \<not> middleExtended \<and> \<not> ringExtended \<and> \<not> pinkyExtended \<and> \<not> thumbExtended then Letter_g
      else if indexExtended \<and> middleExtended \<and> \<not> ringExtended \<and> \<not> pinkyExtended \<and> \<not> thumbExtended then Letter_h
      else if \<not> indexExtended \<and> \<not> middleExtended \<and> \<not> ringExtended \<and> pinkyExtended \<and> \<not> thumbExtended then Letter_i
      else if \<not> indexExtended \<and> \<not> middleExtended \<and> \<not> ringExtended \<and> pinkyExtended \<and> \<not> thumbExtended then Letter_j
      else if indexExtended \<and> middleExtended \<and> \<not> ringExtended \<and> \<not> pinkyExtended \<and> \<not> thumbExtended then Letter_k
      else if indexExtended \<and> \<not> middleExtended \<and> \<not> ringExtended \<and> \<not> pinkyExtended \<and> thumbExtended then Letter_l
      else if isThumbBetweenFingers landmarks then Letter_m
      else if isThumbBetweenFingers landmarks then Letter_n
      else if isThumbIndexCircle thumbTip indexTip then Letter_o
      else if indexExtended \<and> \<not> middleExtended \<and> \<not> ringExtended \<and> \<not> pinkyExtended \<and> \<not> thumbExtended then Letter_p
      else if \<not> indexExtended \<and> \<not> middleExtended \<and> \<not> ringExtended \<and> pinkyExtended \<and> thumbExtended then Letter_q
      else if isIndexMiddleCrossed landmarks then Letter_r
      else if \<not> indexExtended \<and> \<not> middleExtended \<and> \<not> ringExtended \<and> \<not> pinkyExtended \<and> \<not> thumbExtended then Letter_s
      else if isThumbBetweenFingers landmarks then Letter_t
      else if indexExtended \<and> middleExtended \<and> \<not> ringExtended \<and> \<not> pinkyExtended \<and> \<not> thumbExtended then Letter_u
      else if indexExtended \<and> middleExtended \<and> \<not> ringExtended \<and> \<not> pinkyExtended \<and> \<not> thumbExtended then Letter_v
      else if indexExtended \<and> middleExtended \<and> ringExtended \<and> \<not> pinkyExtended \<and> \<not> thumbExtended then Letter_w
      else if \<not> indexExtended \<and> \<not> middleExtended \<and> \<not> ringExtended \<and> \<not> pinkyExtended \<and> \<not> thumbExtended then Letter_x
      else if \<not> indexExtended \<and> \<not> middleExtended \<and> \<not> ringExtended \<and> pinkyExtended \<and> thumbExtended then Letter_y
      else if isIndexMiddleCrossed landmarks then Letter_z
      else Idle)))"

text \<open>
  \<open>detectCommonGestures\<close> is private and is called by \<open>classifyGesture\<close> alone, after
  \<open>detectASLLetter\<close> has returned, so on at least 21 landmarks: none of its reads is out of
  range there.
\<close>

definition detectCommonGestures :: "HandLandmark list \<Rightarrow> Gesture" where
  "detectCommonGestures landmarks =
     (if isWaveGesture landmarks then Hello
      else if isThumbsUp landmarks then Thanks
      else if isThumbsDown landmarks then No
      else if isStopGesture landmarks then Wait
      else if isPointingGesture landmarks then Help
      else Idle)"

definition classifyGesture :: "HandLandmark list \<Rightarrow> string \<Rightarrow> js_error + Gesture" where
  "classifyGesture landmarks handedness =
     (case detectASLLetter landmarks of
        Inl e \<Rightarrow> Inl e
      | Inr aslLetter \<Rightarrow>
          if aslLetter \<noteq> Idle then Inr aslLetter
          else Inr (detectCommonGestures landmarks))"

section \<open>One frame of the tracker\<close>

text \<open>
  The tracker's result object: \<open>multiHandLandmarks\<close> may be absent (\<open>None\<close>);
  \<open>multiHandedness[i]\<close> carries the label and the score of hand \<open>i\<close>.
\<close>

record Handedness =
  label :: string
  score :: real

record HandResults =
  multiHandLandmarks :: "HandLandmark list list option"
  multiHandedness :: "Handedness list"

text \<open>
  The loop of \<open>processHandResults\<close> over the hands, from hand \<open>i\<close> on. \<open>clock i\<close> is what
  \<open>Date.now()\<close> returns while hand \<open>i\<close> is processed. The result is the state after the loop,
  the predictions handed to the callback in order, and the exception that ended the loop, if
  one did: a missing \<open>multiHandedness[i]\<close> or a hand of fewer than 21 landmarks throws, and
  what the earlier hands changed stays changed.
\<close>

fun handsLoop ::
  "(nat \<Rightarrow> int) \<Rightarrow> nat \<Rightarrow> HandLandmark list list \<Rightarrow> Handedness list \<Rightarrow> EngineState
     \<Rightarrow> EngineState \<times> GesturePrediction list \<times> js_error option" where
  "handsLoop clock i [] hs s = (s, [], None)"
| "handsLoop clock i (landmarks # ls) [] s = (s, [], Some TypeError)"
| "handsLoop clock i (landmarks # ls) (handedness # hs) s =
     (if score handedness < confidenceThreshold s then handsLoop clock (Suc i) ls hs s
      else (case classifyGesture landmarks (label handedness) of
              Inl e \<Rightarrow> (s, [], Some e)
            | Inr g \<Rightarrow>
                (let (s1, out) = updateGestureHistory (clock i) g s;
                     (s2, ps, err) = handsLoop clock (Suc i) ls hs s1
                 in (s2, delivered out @ ps, err))))"

definition processHandResults ::
  "(nat \<Rightarrow> int) \<Rightarrow> HandResults \<Rightarrow> EngineState
     \<Rightarrow> EngineState \<times> GesturePrediction list \<times> js_error option" where
  "processHandResults clock results s =
     (case multiHandLandmarks results of
        None \<Rightarrow> (resetToIdle s, [], None)
      | Some ls \<Rightarrow>
          if length ls = 0 then (resetToIdle s, [], None)
          else handsLoop clock 0 ls (multiHandedness results) s)"

text \<open>
  Feeding a sequence of frames to one engine, each with its clock: the list of what the
  callback received during each frame.
\<close>

fun feedFrames ::
  "EngineState \<Rightarrow> ((nat \<Rightarrow> int) \<times> HandResults) list \<Rightarrow> GesturePrediction list list" where
  "feedFrames s [] = []"
| "feedFrames s ((clock, results) # fs) =
     (let (s1, ps, err) = processHandResults clock results s in ps # feedFrames s1 fs)"

section \<open>Notions of the specification and example inputs\<close>

text \<open>
  The number of hands of a frame that pass the confidence check of the loop: the hands \<open>i\<close>
  with a handedness entry whose score is not below \<open>confidenceThreshold\<close>.
\<close>

definition qualifyingHands :: "EngineState \<Rightarrow> HandResults \<Rightarrow> nat" where
  "qualifyingHands s results =
     (case multiHandLandmarks results of
        None \<Rightarrow> 0
      | Some ls \<Rightarrow> length (filter (\<lambda>h. \<not> score h < confidenceThreshold s)
                                  (take (length ls) (multiHandedness results))))"

text \<open>The state after a sequence of frames (the companion of \<open>feedFrames\<close>).\<close>

fun stateAfter :: "EngineState \<Rightarrow> ((nat \<Rightarrow> int) \<times> HandResults) list \<Rightarrow> EngineState" where
  "stateAfter s [] = s"
| "stateAfter s ((clock, results) # fs) =
     (let (s1, ps, err) = processHandResults clock results s in stateAfter s1 fs)"

text \<open>
  A hand of 21 landmarks in the image plane: a fist with the thumb stretched out. Each of the
  four fingers is curled so that its tip lies on its base joint; the thumb tip is far from
  the thumb base.
\<close>

definition fistThumbOut :: "HandLandmark list" where
  "fistThumbOut =
     [\<lparr>x = 50 / 100, y = 90 / 100, z = 0\<rparr>,
      \<lparr>x = 40 / 100, y = 80 / 100, z = 0\<rparr>, \<lparr>x = 35 / 100, y = 70 / 100, z = 0\<rparr>,
      \<lparr>x = 30 / 100, y = 60 / 100, z = 0\<rparr>, \<lparr>x = 30 / 100, y = 50 / 100, z = 0\<rparr>,
      \<lparr>x = 45 / 100, y = 60 / 100, z = 0\<rparr>, \<lparr>x = 45 / 100, y = 50 / 100, z = 0\<rparr>,
      \<lparr>x = 45 / 100, y = 55 / 100, z = 0\<rparr>, \<lparr>x = 45 / 100, y = 60 / 100, z = 0\<rparr>,
      \<lparr>x = 50 / 100, y = 60 / 100, z = 0\<rparr>, \<lparr>x = 50 / 100, y = 50 / 100, z = 0\<rparr>,
      \<lparr>x = 50 / 100, y = 55 / 100, z = 0\<rparr>, \<lparr>x = 50 / 100, y = 60 / 100, z = 0\<rparr>,
      \<lparr>x = 55 / 100, y = 60 / 100, z = 0\<rparr>, \<lparr>x = 55 / 100, y = 50 / 100, z = 0\<rparr>,
      \<lparr>x = 55 / 100, y = 55 / 100, z = 0\<rparr>, \<lparr>x = 55 / 100, y = 60 / 100, z = 0\<rparr>,
      \<lparr>x = 60 / 100, y = 60 / 100, z = 0\<rparr>, \<lparr>x = 60 / 100, y = 50 / 100, z = 0\<rparr>,
      \<lparr>x = 60 / 100, y = 55 / 100, z = 0\<rparr>, \<lparr>x = 60 / 100, y = 60 / 100, z = 0\<rparr>]"

text \<open>The same fist with the thumb folded onto its base: no finger is extended.\<close>

definition closedFist :: "HandLandmark list" where
  "closedFist = fistThumbOut[4 := \<lparr>x = 40 / 100, y = 80 / 100, z = 0\<rparr>]"

text \<open>A frame with one hand, reported with the given score.\<close>

definition oneHand :: "HandLandmark list \<Rightarrow> real \<Rightarrow> HandResults" where
  "oneHand landmarks sc =
     \<lparr> multiHandLandmarks = Some [landmarks],
       multiHandedness = [\<lparr> label = ''Right'', score = sc \<rparr>] \<rparr>"

text \<open>A frame with two hands, the open-thumb fist and the closed fist, both well tracked.\<close>

definition twoHands :: HandResults where
  "twoHands =
     \<lparr> multiHandLandmarks = Some [fistThumbOut, closedFist],
       multiHandedness = [\<lparr> label = ''Right'', score = 9 / 10 \<rparr>,
                          \<lparr> label = ''Left'', score = 9 / 10 \<rparr>] \<rparr>"

text \<open>A clock that shows the same time \<open>t\<close> during the whole frame.\<close>

definition frozenClock :: "int \<Rightarrow> nat \<Rightarrow> int" where
  "frozenClock t i = t"

text \<open>
  An engine configured with \<open>stabilityThreshold = 2\<close> that has emitted "b" at time 4000
  and has since seen "a", "a", "b", "a".
\<close>

definition afterABA :: EngineState where
  "afterABA =
     initialState\<lparr> gestureHistory := [Letter_b, Letter_a, Letter_a, Letter_b, Letter_a],
       lastStableGesture := Letter_b, stabilityThreshold := 2, lastGestureTime := 4000 \<rparr>"

text \<open>
  The engine after three frames, 33 ms apart, that each show the open-thumb fist, well tracked.
\<close>

definition afterThreeFists :: EngineState where
  "afterThreeFists =
     stateAfter initialState
       [(frozenClock 1000, oneHand fistThumbOut (9 / 10)),
        (frozenClock 1033, oneHand fistThumbOut (9 / 10)),
        (frozenClock 1066, oneHand fistThumbOut (9 / 10))]"

section \<open>The history buffer\<close>

lemma js_slice_neg: "0 < n \<Longrightarrow> js_slice (- n) xs = drop (length xs - nat n) xs"
  by (auto simp: js_slice_def Let_def max_def nat_diff_distrib' intro!: arg_cong2[where f=drop])

lemma js_slice_recent: "1 \<le> n \<Longrightarrow> set (js_slice (- n) xs) = set (take (nat n) (rev xs))"
  by (simp add: js_slice_neg take_rev)

lemma pushHistory_nonempty: "pushHistory g h \<noteq> []"
  by (cases h) (auto simp: pushHistory_def Let_def)

lemma length_pushHistory:
  "length (pushHistory g h) = (if length h < 5 then Suc (length h) else length h)"
  by (simp add: pushHistory_def Let_def)

section \<open>Stability\<close>

text \<open>
  Claim C1. With a stability threshold of at least 1, \<open>isStable\<close> holds exactly when the
  buffer has at least \<open>stabilityThreshold\<close> entries and its \<open>stabilityThreshold\<close> most recent
  entries all equal the classified symbol; and whatever the threshold, a buffer shorter than
  it is not stable.
\<close>

theorem isGestureStable_iff_recent:
  "(1 \<le> stabilityThreshold s \<longrightarrow>
      (isGestureStable s g \<longleftrightarrow>
         stabilityThreshold s \<le> int (length (gestureHistory s)) \<and>
         (\<forall>r \<in> set (take (nat (stabilityThreshold s)) (rev (gestureHistory s))). r = g)))
   \<and> (int (length (gestureHistory s)) < stabilityThreshold s \<longrightarrow> \<not> isGestureStable s g)"
  by (auto simp: isGestureStable_def Let_def list_all_iff js_slice_recent)

theorem isGestureStable_iff_recent_witness:
  "1 \<le> stabilityThreshold (initialState\<lparr> gestureHistory := [Letter_b, Letter_a, Letter_a, Letter_a] \<rparr>)
   \<and> isGestureStable (initialState\<lparr> gestureHistory := [Letter_b, Letter_a, Letter_a, Letter_a] \<rparr>) Letter_a
   \<and> \<not> isGestureStable (initialState\<lparr> gestureHistory := [Letter_a, Letter_b, Letter_a, Letter_a] \<rparr>) Letter_a
   \<and> int (length (gestureHistory (initialState\<lparr> gestureHistory := [Letter_a, Letter_a] \<rparr>)))
        < stabilityThreshold (initialState\<lparr> gestureHistory := [Letter_a, Letter_a] \<rparr>)
   \<and> \<not> isGestureStable (initialState\<lparr> gestureHistory := [Letter_a, Letter_a] \<rparr>) Letter_a"
  using
    isGestureStable_iff_recent
      [of "initialState\<lparr> gestureHistory := [Letter_b, Letter_a, Letter_a, Letter_a] \<rparr>" Letter_a]
    isGestureStable_iff_recent
      [of "initialState\<lparr> gestureHistory := [Letter_a, Letter_b, Letter_a, Letter_a] \<rparr>" Letter_a]
    isGestureStable_iff_recent
      [of "initialState\<lparr> gestureHistory := [Letter_a, Letter_a] \<rparr>" Letter_a]
  by (simp add: initialState_def)

section \<open>Lemmas about the classifier and the example hands\<close>

lemma sqrt_less_bound: "0 \<le> c \<Longrightarrow> sqrt a < c \<longleftrightarrow> a < c\<^sup>2"
  by (metis abs_of_nonneg real_sqrt_abs real_sqrt_less_iff)

lemma sqrt_less_tenth: "sqrt a < 1 / 10 \<longleftrightarrow> a < (1 / 10)\<^sup>2"
  using sqrt_less_bound [of "1 / 10" a] by simp

lemma isFingerExtended_sq:
  "isFingerExtended tip base mcp \<longleftrightarrow>
     (x tip - x mcp)\<^sup>2 + (y tip - y mcp)\<^sup>2 + (z tip - z mcp)\<^sup>2
       < (x tip - x base)\<^sup>2 + (y tip - y base)\<^sup>2 + (z tip - z base)\<^sup>2"
  by (simp add: isFingerExtended_def Let_def)

lemma isCurvedGesture_sq:
  "isCurvedGesture lms \<longleftrightarrow>
     (x (lms ! 12) - x (lms ! 8))\<^sup>2 + (y (lms ! 12) - y (lms ! 8))\<^sup>2 < (1 / 10)\<^sup>2 \<and>
     (x (lms ! 16) - x (lms ! 12))\<^sup>2 + (y (lms ! 16) - y (lms ! 12))\<^sup>2 < (1 / 10)\<^sup>2 \<and>
     (x (lms ! 20) - x (lms ! 16))\<^sup>2 + (y (lms ! 20) - y (lms ! 16))\<^sup>2 < (1 / 10)\<^sup>2"
proof -
  have "isCurvedGesture lms \<longleftrightarrow>
     sqrt ((x (lms ! 12) - x (lms ! 8))\<^sup>2 + (y (lms ! 12) - y (lms ! 8))\<^sup>2) < 1 / 10 \<and>
     sqrt ((x (lms ! 16) - x (lms ! 12))\<^sup>2 + (y (lms ! 16) - y (lms ! 12))\<^sup>2) < 1 / 10 \<and>
     sqrt ((x (lms ! 20) - x (lms ! 16))\<^sup>2 + (y (lms ! 20) - y (lms ! 16))\<^sup>2) < 1 / 10"
    by (simp add: isCurvedGesture_def Let_def)
  then show ?thesis by (simp only: sqrt_less_tenth)
qed

lemma detectASLLetter_a: "length lms = 21 \<Longrightarrow> isFingerExtended (lms ! 4) (lms ! 1) (lms ! 2) \<Longrightarrow>
  \<not> isFingerExtended (lms ! 8) (lms ! 5) (lms ! 6) \<Longrightarrow>
  \<not> isFingerExtended (lms ! 12) (lms ! 9) (lms ! 10) \<Longrightarrow>
  \<not> isFingerExtended (lms ! 16) (lms ! 13) (lms ! 14) \<Longrightarrow>
  \<not> isFingerExtended (lms ! 20) (lms ! 17) (lms ! 18) \<Longrightarrow> detectASLLetter lms = Inr Letter_a"
  by (simp add: detectASLLetter_def Let_def)

lemma detectASLLetter_c: "length lms = 21 \<Longrightarrow> \<not> isFingerExtended (lms ! 4) (lms ! 1) (lms ! 2) \<Longrightarrow>
  \<not> isFingerExtended (lms ! 8) (lms ! 5) (lms ! 6) \<Longrightarrow>
  \<not> isFingerExtended (lms ! 12) (lms ! 9) (lms ! 10) \<Longrightarrow>
  \<not> isFingerExtended (lms ! 16) (lms ! 13) (lms ! 14) \<Longrightarrow>
  \<not> isFingerExtended (lms ! 20) (lms ! 17) (lms ! 18) \<Longrightarrow> isCurvedGesture lms \<Longrightarrow>
  detectASLLetter lms = Inr Letter_c"
  by (simp add: detectASLLetter_def Let_def)

lemma classify_fistThumbOut: "classifyGesture fistThumbOut lab = Inr Letter_a"
proof -
  have "detectASLLetter fistThumbOut = Inr Letter_a"
    by (rule detectASLLetter_a)
       (simp_all add: fistThumbOut_def isFingerExtended_sq power2_eq_square)
  then show ?thesis by (simp add: classifyGesture_def)
qed

lemma isCurved_closedFist: "isCurvedGesture closedFist"
  by (simp add: isCurvedGesture_sq closedFist_def fistThumbOut_def power2_eq_square)

lemma classify_closedFist: "classifyGesture closedFist lab = Inr Letter_c"
proof -
  have "detectASLLetter closedFist = Inr Letter_c"
    by (rule detectASLLetter_c)
       (simp_all add: isCurved_closedFist,
        simp_all add: closedFist_def fistThumbOut_def isFingerExtended_sq power2_eq_square)
  then show ?thesis by (simp add: classifyGesture_def)
qed

section \<open>Lemmas about one step of the filter\<close>

lemma isGestureStable_recent:
  "isGestureStable s g \<Longrightarrow> 1 \<le> stabilityThreshold s \<Longrightarrow>
     \<forall>r \<in> set (take (nat (stabilityThreshold s)) (rev (gestureHistory s))). r = g"
  by (auto simp: isGestureStable_def Let_def list_all_iff js_slice_recent split: if_splits)

lemma isGestureStable_short:
  "int (length (gestureHistory s)) < stabilityThreshold s \<Longrightarrow> \<not> isGestureStable s g"
  by (simp add: isGestureStable_def)

lemma update_emitted_iff:
  "(\<exists>p. snd (updateGestureHistory now g s) = Emitted p) \<longleftrightarrow>
      isGestureStable (s\<lparr> gestureHistory := pushHistory g (gestureHistory s) \<rparr>) g \<and>
      g \<noteq> lastStableGesture s"
  by (simp add: updateGestureHistory_def Let_def)

lemma update_config:
  "stabilityThreshold (fst (updateGestureHistory now g s)) = stabilityThreshold s"
  "confidenceThreshold (fst (updateGestureHistory now g s)) = confidenceThreshold s"
  "gestureCooldown (fst (updateGestureHistory now g s)) = gestureCooldown s"
  "gestureHistory (fst (updateGestureHistory now g s)) = pushHistory g (gestureHistory s)"
  by (simp_all add: updateGestureHistory_def Let_def)

lemma update_not_emitted:
  "delivered (snd (updateGestureHistory now g s)) = [] \<Longrightarrow>
     lastStableGesture (fst (updateGestureHistory now g s)) = lastStableGesture s \<and>
     lastGestureTime (fst (updateGestureHistory now g s)) = lastGestureTime s"
  by (simp add: updateGestureHistory_def Let_def split: if_splits)

lemma update_delivered:
  "delivered (snd (updateGestureHistory now g s)) =
     (if isGestureStable (s\<lparr> gestureHistory := pushHistory g (gestureHistory s) \<rparr>) g \<and>
         g \<noteq> lastStableGesture s
      then [\<lparr> gesture = g,
              confidence = calculateConfidence
                (s\<lparr> gestureHistory := pushHistory g (gestureHistory s), lastStableGesture := g,
                    lastGestureTime := now \<rparr>) g,
              text' = gestureToText g, isStable = True \<rparr>]
      else [])"
  by (simp add: updateGestureHistory_def Let_def)

lemma update_state:
  "fst (updateGestureHistory now g s) =
     (if isGestureStable (s\<lparr> gestureHistory := pushHistory g (gestureHistory s) \<rparr>) g \<and>
         g \<noteq> lastStableGesture s
      then s\<lparr> gestureHistory := pushHistory g (gestureHistory s), lastStableGesture := g,
                lastGestureTime := now \<rparr>
      else s\<lparr> gestureHistory := pushHistory g (gestureHistory s) \<rparr>)"
  by (simp add: updateGestureHistory_def Let_def)

lemma rev_pushHistory_take:
  "m < length (pushHistory g h) \<Longrightarrow>
     take (Suc m) (rev (pushHistory g h)) = g # take m (rev h)"
proof (cases "length h < 5")
  case True
  then show ?thesis by (simp add: pushHistory_def Let_def)
next
  case False
  assume m: "m < length (pushHistory g h)"
  from False have ne: "h \<noteq> []" by auto
  from False have ph: "pushHistory g h = tl h @ [g]" using ne by (simp add: pushHistory_def Let_def)
  have "m < length (rev h)" using m False by (simp add: length_pushHistory)
  then have "take m (butlast (rev h)) = take m (rev h)" by (rule take_butlast)
  then have "take m (rev (tl h)) = take m (rev h)" by simp
  then show ?thesis by (simp add: ph)
qed

lemma update_after_emission:
  fixes m :: nat
  assumes Q: "lastStableGesture s \<in> set (take m (rev (gestureHistory s))) \<or>
              (5 \<le> length (gestureHistory s) \<and> int (length (gestureHistory s)) < stabilityThreshold s)"
    and mT: "int m + 1 \<le> stabilityThreshold s"
  shows "delivered (snd (updateGestureHistory now g s)) = [] \<and>
     (lastStableGesture (fst (updateGestureHistory now g s))
        \<in> set (take (Suc m) (rev (gestureHistory (fst (updateGestureHistory now g s))))) \<or>
      (5 \<le> length (gestureHistory (fst (updateGestureHistory now g s))) \<and>
       int (length (gestureHistory (fst (updateGestureHistory now g s)))) < stabilityThreshold s))"
proof -
  let ?h1 = "pushHistory g (gestureHistory s)"
  let ?s1 = "s\<lparr> gestureHistory := ?h1 \<rparr>"
  have noemit: "delivered (snd (updateGestureHistory now g s)) = []"
    if "\<not> isGestureStable ?s1 g \<or> g = lastStableGesture s"
    using that by (auto simp: update_delivered)
  have keep: "lastStableGesture (fst (updateGestureHistory now g s)) = lastStableGesture s"
    if "delivered (snd (updateGestureHistory now g s)) = []"
    using update_not_emitted[OF that] by simp
  have hist: "gestureHistory (fst (updateGestureHistory now g s)) = ?h1"
    by (simp add: update_config)
  show ?thesis
  proof (cases "m < length ?h1")
    case True
    have short: "5 \<le> length (gestureHistory s) \<and> int (length (gestureHistory s)) < stabilityThreshold s
        \<Longrightarrow> ?thesis"
    proof -
      assume b: "5 \<le> length (gestureHistory s) \<and> int (length (gestureHistory s)) < stabilityThreshold s"
      then have l: "length ?h1 = length (gestureHistory s)" by (simp add: length_pushHistory)
      then have "\<not> isGestureStable ?s1 g" using b by (intro isGestureStable_short) simp
      then have "delivered (snd (updateGestureHistory now g s)) = []" by (simp add: noemit)
      then show ?thesis using b l by (simp add: hist)
    qed
    have mem: "lastStableGesture s \<in> set (take m (rev (gestureHistory s))) \<Longrightarrow> ?thesis"
    proof -
      assume a: "lastStableGesture s \<in> set (take m (rev (gestureHistory s)))"
      have tk: "take (Suc m) (rev ?h1) = g # take m (rev (gestureHistory s))"
        using True by (rule rev_pushHistory_take)
      then have in1: "lastStableGesture s \<in> set (take (Suc m) (rev ?h1))" using a by simp
      have "\<not> isGestureStable ?s1 g \<or> g = lastStableGesture s"
      proof (cases "isGestureStable ?s1 g")
        case False then show ?thesis by simp
      next
        case st: True
        have T1: "1 \<le> stabilityThreshold ?s1" using mT by simp
        from isGestureStable_recent[OF st T1]
        have all: "\<forall>r \<in> set (take (nat (stabilityThreshold s)) (rev ?h1)). r = g" by simp
        have "Suc m \<le> nat (stabilityThreshold s)" using mT by linarith
        then have "set (take (Suc m) (rev ?h1)) \<subseteq> set (take (nat (stabilityThreshold s)) (rev ?h1))"
          by (rule set_take_subset_set_take)
        with in1 have "lastStableGesture s \<in> set (take (nat (stabilityThreshold s)) (rev ?h1))"
          by (rule rev_subsetD)
        with all have "lastStableGesture s = g" by simp
        then show ?thesis by simp
      qed
      then have d: "delivered (snd (updateGestureHistory now g s)) = []" by (rule noemit)
      from keep[OF d] in1 d show ?thesis by (simp add: hist)
    qed
    from Q short mem show ?thesis by blast
  next
    case False
    then have lm: "length ?h1 \<le> m" by simp
    then have lt: "int (length ?h1) < stabilityThreshold s" using mT by linarith
    then have "\<not> isGestureStable ?s1 g" by (intro isGestureStable_short) simp
    then have d: "delivered (snd (updateGestureHistory now g s)) = []" by (simp add: noemit)
    have "lastStableGesture s \<in> set (take m (rev (gestureHistory s))) \<Longrightarrow> ?thesis"
    proof -
      assume a: "lastStableGesture s \<in> set (take m (rev (gestureHistory s)))"
      show ?thesis
      proof (cases "length (gestureHistory s) < 5")
        case True
        then have "?h1 = gestureHistory s @ [g]" by (simp add: pushHistory_def Let_def)
        then have "take (Suc m) (rev ?h1) = g # take m (rev (gestureHistory s))" by simp
        with a keep[OF d] d show ?thesis by (simp add: hist)
      next
        case False
        then have "5 \<le> length ?h1" by (simp add: length_pushHistory)
        with lt d show ?thesis by (simp add: hist)
      qed
    qed
    moreover have "5 \<le> length (gestureHistory s) \<and> int (length (gestureHistory s)) < stabilityThreshold s
        \<Longrightarrow> ?thesis"
      using d lt by (simp add: hist length_pushHistory)
    ultimately show ?thesis using Q by blast
  qed
qed


section \<open>Lemmas about the loop over the hands of a frame\<close>

lemma handsLoop_Cons:
  "handsLoop clock i (l # ls) (h # hs) s =
     (if score h < confidenceThreshold s then handsLoop clock (Suc i) ls hs s
      else (case classifyGesture l (label h) of
              Inl e \<Rightarrow> (s, [], Some e)
            | Inr g \<Rightarrow>
                (fst (handsLoop clock (Suc i) ls hs (fst (updateGestureHistory (clock i) g s))),
                 delivered (snd (updateGestureHistory (clock i) g s)) @
                   fst (snd (handsLoop clock (Suc i) ls hs (fst (updateGestureHistory (clock i) g s)))),
                 snd (snd (handsLoop clock (Suc i) ls hs (fst (updateGestureHistory (clock i) g s)))))))"
  by (simp add: case_prod_unfold Let_def split: sum.splits)

lemma handsLoop_all_low:
  "\<forall>h \<in> set hs. score h < confidenceThreshold s \<Longrightarrow>
     fst (handsLoop clock i ls hs s) = s \<and> fst (snd (handsLoop clock i ls hs s)) = []"
  by (induction clock i ls hs s rule: handsLoop.induct) simp_all

lemma handsLoop_low_done:
  "length ls \<le> length hs \<Longrightarrow> \<forall>h \<in> set hs. score h < confidenceThreshold s \<Longrightarrow>
     handsLoop clock i ls hs s = (s, [], None)"
  by (induction clock i ls hs s rule: handsLoop.induct) simp_all

lemma handsLoop_skip:
  "length ls1 = length hs1 \<Longrightarrow> \<forall>h \<in> set hs1. score h < confidenceThreshold s \<Longrightarrow>
     handsLoop clock i (ls1 @ ls2) (hs1 @ hs2) s = handsLoop clock (i + length ls1) ls2 hs2 s"
  by (induction ls1 hs1 arbitrary: i rule: list_induct2) simp_all

lemma handsLoop_one:
  assumes "\<not> score hnd < confidenceThreshold s" "classifyGesture lms (label hnd) = Inr g"
    and "length ls3 \<le> length hs3" "\<forall>h \<in> set hs3. score h < confidenceThreshold s"
  shows "handsLoop clock i (lms # ls3) (hnd # hs3) s =
     (fst (updateGestureHistory (clock i) g s), delivered (snd (updateGestureHistory (clock i) g s)), None)"
proof -
  have "handsLoop clock (Suc i) ls3 hs3 (fst (updateGestureHistory (clock i) g s))
         = (fst (updateGestureHistory (clock i) g s), [], None)"
    using assms(3,4) by (intro handsLoop_low_done) (simp_all add: update_config)
  then show ?thesis using assms(1,2) by (simp add: case_prod_unfold Let_def)
qed


lemma handsLoop_no_more:
  fixes m :: nat
  shows "lastStableGesture s \<in> set (take m (rev (gestureHistory s))) \<or>
      (5 \<le> length (gestureHistory s) \<and> int (length (gestureHistory s)) < stabilityThreshold s) \<Longrightarrow>
    int m + int (length (filter (\<lambda>h. \<not> score h < confidenceThreshold s) (take (length ls) hs)))
       \<le> stabilityThreshold s \<Longrightarrow>
    fst (snd (handsLoop clock i ls hs s)) = []"
proof (induction ls arbitrary: hs s i m)
  case Nil
  then show ?case by simp
next
  case (Cons l ls)
  show ?case
  proof (cases hs)
    case Nil
    then show ?thesis by simp
  next
    case hs: (Cons h hs')
    show ?thesis
    proof (cases "score h < confidenceThreshold s")
      case True
      with Cons.prems have "fst (snd (handsLoop clock (Suc i) ls hs' s)) = []"
        by (intro Cons.IH[where m = m]) (simp_all add: hs)
      with True show ?thesis by (simp add: hs)
    next
      case False
      show ?thesis
      proof (cases "classifyGesture l (label h)")
        case (Inl e)
        with False show ?thesis by (simp add: hs)
      next
        case (Inr g)
        let ?u = "updateGestureHistory (clock i) g s"
        from Cons.prems(2) False have mT: "int m + 1 \<le> stabilityThreshold s"
          and rest: "int (Suc m) + int (length (filter (\<lambda>h. \<not> score h < confidenceThreshold s)
                        (take (length ls) hs'))) \<le> stabilityThreshold s"
          by (simp_all add: hs)
        from update_after_emission[OF Cons.prems(1) mT, of "clock i" g]
        have d: "delivered (snd ?u) = []"
          and q: "lastStableGesture (fst ?u) \<in> set (take (Suc m) (rev (gestureHistory (fst ?u)))) \<or>
            (5 \<le> length (gestureHistory (fst ?u)) \<and>
             int (length (gestureHistory (fst ?u))) < stabilityThreshold (fst ?u))"
          by (simp_all add: update_config)
        have "fst (snd (handsLoop clock (Suc i) ls hs' (fst ?u))) = []"
          using q rest by (intro Cons.IH[where m = "Suc m"]) (simp_all add: update_config)
        with d False Inr show ?thesis by (simp add: hs handsLoop_Cons del: handsLoop.simps)
      qed
    qed
  qed
qed

lemma handsLoop_at_most_one:
  "int (length (filter (\<lambda>h. \<not> score h < confidenceThreshold s) (take (length ls) hs)))
       \<le> stabilityThreshold s \<Longrightarrow>
    length (fst (snd (handsLoop clock i ls hs s))) \<le> 1"
proof (induction ls arbitrary: hs s i)
  case Nil
  then show ?case by simp
next
  case (Cons l ls)
  show ?case
  proof (cases hs)
    case Nil
    then show ?thesis by simp
  next
    case hs: (Cons h hs')
    show ?thesis
    proof (cases "score h < confidenceThreshold s")
      case True
      with Cons.prems have "length (fst (snd (handsLoop clock (Suc i) ls hs' s))) \<le> 1"
        by (intro Cons.IH) (simp_all add: hs)
      with True show ?thesis by (simp add: hs)
    next
      case False
      show ?thesis
      proof (cases "classifyGesture l (label h)")
        case (Inl e)
        with False show ?thesis by (simp add: hs)
      next
        case (Inr g)
        let ?u = "updateGestureHistory (clock i) g s"
        let ?rest = "fst (snd (handsLoop clock (Suc i) ls hs' (fst ?u)))"
        from Cons.prems False
        have rest: "1 + int (length (filter (\<lambda>h. \<not> score h < confidenceThreshold s)
                        (take (length ls) hs'))) \<le> stabilityThreshold s"
          by (simp add: hs)
        have eq: "fst (snd (handsLoop clock i (l # ls) hs s)) = delivered (snd ?u) @ ?rest"
          using False Inr by (simp add: hs handsLoop_Cons del: handsLoop.simps)
        show ?thesis
        proof (cases "delivered (snd ?u) = []")
          case True
          have "length ?rest \<le> 1"
            using rest by (intro Cons.IH) (simp_all add: update_config)
          with True show ?thesis by (simp add: eq)
        next
          case False
          then have em: "isGestureStable (s\<lparr> gestureHistory := pushHistory g (gestureHistory s) \<rparr>) g \<and>
              g \<noteq> lastStableGesture s"
            by (simp add: update_delivered split: if_splits)
          then have ls: "lastStableGesture (fst ?u) = g" by (simp add: update_state)
          have one: "length (delivered (snd ?u)) = 1" using em by (simp add: update_delivered)
          have "take (Suc 0) (rev (pushHistory g (gestureHistory s))) = g # take 0 (rev (gestureHistory s))"
            by (intro rev_pushHistory_take) (simp add: pushHistory_nonempty)
          then have "lastStableGesture (fst ?u) \<in> set (take 1 (rev (gestureHistory (fst ?u))))"
            by (simp add: ls update_config)
          then have "?rest = []"
            using rest by (intro handsLoop_no_more[where m = 1]) (simp_all add: update_config)
          with one show ?thesis by (simp add: eq)
        qed
      qed
    qed
  qed
qed

section \<open>Confidence\<close>

lemma count_list_filter: "count_list xs a = length (filter (\<lambda>r. r = a) xs)"
  by (induction xs) auto

lemma count_list_take_le: "count_list (take n xs) a \<le> n"
  by (metis count_le_length length_take min.cobounded2 order_trans)

lemma count_list_all: "\<forall>r\<in>set xs. r = a \<Longrightarrow> count_list xs a = length xs"
  by (induction xs) auto

lemma calculateConfidence_recent:
  "gestureHistory s \<noteq> [] \<Longrightarrow>
   calculateConfidence s g =
     real (count_list (take (min 5 (length (gestureHistory s))) (rev (gestureHistory s))) g)
       / real (min 5 (length (gestureHistory s)))"
  apply (simp add: calculateConfidence_def Let_def js_slice_neg take_rev count_list_filter
      flip: rev_filter)
  apply (auto simp: min_def)
  done

lemma update_emitted:
  assumes "updateGestureHistory now g s = (s', Emitted p)"
  shows "gestureHistory s' = pushHistory g (gestureHistory s)" "lastStableGesture s' = g"
     "lastGestureTime s' = now" "gesture p = g" "confidence p = calculateConfidence s' g"
proof -
  from assms have e: "delivered (snd (updateGestureHistory now g s)) = [p]"
    and f: "fst (updateGestureHistory now g s) = s'" by simp_all
  from e have c: "isGestureStable (s\<lparr> gestureHistory := pushHistory g (gestureHistory s) \<rparr>) g \<and>
      g \<noteq> lastStableGesture s"
    by (simp add: update_delivered split: if_splits)
  with f have s': "s' = s\<lparr> gestureHistory := pushHistory g (gestureHistory s),
      lastStableGesture := g, lastGestureTime := now \<rparr>"
    by (simp add: update_state)
  from e c have p: "p = \<lparr> gesture = g, confidence = calculateConfidence s' g,
      text' = gestureToText g, isStable = True \<rparr>"
    by (simp add: update_delivered s')
  show "gestureHistory s' = pushHistory g (gestureHistory s)" "lastStableGesture s' = g"
     "lastGestureTime s' = now"
    by (simp_all add: s')
  show "gesture p = g" "confidence p = calculateConfidence s' g" by (simp_all add: p)
qed

lemma afterABA_run:
  "updateGestureHistory 4100 Letter_a afterABA =
    (afterABA\<lparr> gestureHistory := [Letter_a, Letter_a, Letter_b, Letter_a, Letter_a],
       lastStableGesture := Letter_a, lastGestureTime := 4100 \<rparr>,
     Emitted \<lparr> gesture = Letter_a, confidence = 4 / 5, text' = ''A'', isStable = True \<rparr>)"
  by (simp add: updateGestureHistory_def afterABA_def initialState_def pushHistory_def
      isGestureStable_def calculateConfidence_def js_slice_def Let_def)

text \<open>
  Claim C5. Whenever a prediction is emitted, its confidence is \<open>k / min(5, n)\<close>, where
  \<open>n\<close> is the length of the buffer (the new symbol included) and \<open>k\<close> counts the entries
  equal to the emitted symbol among the \<open>min(5, n)\<close> most recent ones; so it lies between 0
  and 1, it is 1 when the buffer has at least 5 entries and the five most recent all equal
  the symbol, and for the buffer a, a, b, a, a and the symbol a it is 0.8.
\<close>

theorem confidence_of_emission:
  "(updateGestureHistory now g s = (s', Emitted p) \<longrightarrow>
      confidence p =
        real (count_list (take (min 5 (length (gestureHistory s'))) (rev (gestureHistory s'))) g)
          / real (min 5 (length (gestureHistory s'))) \<and>
      0 \<le> confidence p \<and> confidence p \<le> 1 \<and>
      (5 \<le> length (gestureHistory s') \<and> (\<forall>r \<in> set (take 5 (rev (gestureHistory s'))). r = g)
         \<longrightarrow> confidence p = 1))
   \<and> calculateConfidence
        (s\<lparr> gestureHistory := [Letter_a, Letter_a, Letter_b, Letter_a, Letter_a] \<rparr>) Letter_a
       = 8 / 10"
proof (intro conjI impI)
  assume e: "updateGestureHistory now g s = (s', Emitted p)"
  let ?h = "gestureHistory s'"
  let ?m = "min 5 (length ?h)"
  from update_emitted[OF e] have ne: "?h \<noteq> []" and c: "confidence p = calculateConfidence s' g"
    by (simp_all add: pushHistory_nonempty)
  show eq: "confidence p = real (count_list (take ?m (rev ?h)) g) / real ?m"
    using c calculateConfidence_recent[OF ne] by simp
  have pos: "0 < ?m" using ne by simp
  have le: "count_list (take ?m (rev ?h)) g \<le> ?m" by (rule count_list_take_le)
  show "0 \<le> confidence p" unfolding eq by simp
  show "confidence p \<le> 1" unfolding eq using le pos by (simp add: divide_le_eq_1)
  assume a: "5 \<le> length ?h \<and> (\<forall>r \<in> set (take 5 (rev ?h)). r = g)"
  then have m5: "?m = 5" by simp
  from a have "count_list (take 5 (rev ?h)) g = length (take 5 (rev ?h))"
    by (intro count_list_all) simp
  with a have "count_list (take 5 (rev ?h)) g = 5" by simp
  then show "confidence p = 1" unfolding eq m5 by simp
next
  show "calculateConfidence
        (s\<lparr> gestureHistory := [Letter_a, Letter_a, Letter_b, Letter_a, Letter_a] \<rparr>) Letter_a
       = 8 / 10"
    by (simp add: calculateConfidence_def js_slice_def)
qed

theorem confidence_of_emission_witness:
  "updateGestureHistory 4100 Letter_a afterABA =
     (afterABA\<lparr> gestureHistory := [Letter_a, Letter_a, Letter_b, Letter_a, Letter_a],
        lastStableGesture := Letter_a, lastGestureTime := 4100 \<rparr>,
      Emitted \<lparr> gesture = Letter_a, confidence = 4 / 5, text' = ''A'', isStable = True \<rparr>)
   \<and> confidence \<lparr> gesture = Letter_a, confidence = 4 / 5, text' = ''A'', isStable = True \<rparr>
       = real (count_list [Letter_a, Letter_a, Letter_b, Letter_a, Letter_a] Letter_a) / 5"
  using afterABA_run
    confidence_of_emission [of 4100 Letter_a afterABA
      "afterABA\<lparr> gestureHistory := [Letter_a, Letter_a, Letter_b, Letter_a, Letter_a],
         lastStableGesture := Letter_a, lastGestureTime := 4100 \<rparr>"
      "\<lparr> gesture = Letter_a, confidence = 4 / 5, text' = ''A'', isStable = True \<rparr>"]
  by simp

text \<open>
  Claim C3. The call ends at the early return of the cooldown check exactly when less than
  \<open>gestureCooldown\<close> milliseconds have passed since the last emission and the symbol is not
  stable; a symbol that is stable and differs from the last stable one is emitted although
  the call falls inside the cooldown window.
\<close>

theorem cooldown_gate:
  "(snd (updateGestureHistory now g s) = Suppressed \<longleftrightarrow>
      now - lastGestureTime s < gestureCooldown s \<and>
      \<not> isGestureStable (s\<lparr> gestureHistory := pushHistory g (gestureHistory s) \<rparr>) g)
   \<and> (isGestureStable (s\<lparr> gestureHistory := pushHistory g (gestureHistory s) \<rparr>) g \<and>
       g \<noteq> lastStableGesture s \<and> now - lastGestureTime s < gestureCooldown s \<longrightarrow>
         (\<exists>p. snd (updateGestureHistory now g s) = Emitted p \<and> gesture p = g))"
  by (simp add: updateGestureHistory_def Let_def)

theorem cooldown_gate_witness:
  "snd (updateGestureHistory 100 Letter_y
          (initialState\<lparr> gestureHistory := [Letter_x, Letter_x, Letter_x],
             lastStableGesture := Letter_x \<rparr>)) = Suppressed
   \<and> 600 - lastGestureTime (initialState\<lparr> gestureHistory := [Letter_z, Letter_y, Letter_z, Letter_y, Letter_y],
             lastStableGesture := Letter_x \<rparr>)
        < gestureCooldown (initialState\<lparr> gestureHistory := [Letter_z, Letter_y, Letter_z, Letter_y, Letter_y],
             lastStableGesture := Letter_x \<rparr>)
   \<and> snd (updateGestureHistory 600 Letter_y
          (initialState\<lparr> gestureHistory := [Letter_z, Letter_y, Letter_z, Letter_y, Letter_y],
             lastStableGesture := Letter_x \<rparr>))
       = Emitted \<lparr> gesture = Letter_y, confidence = 4 / 5, text' = ''Y'', isStable = True \<rparr>"
  using
    cooldown_gate [of 100 Letter_y
      "initialState\<lparr> gestureHistory := [Letter_x, Letter_x, Letter_x],
         lastStableGesture := Letter_x \<rparr>"]
    cooldown_gate [of 600 Letter_y
      "initialState\<lparr> gestureHistory := [Letter_z, Letter_y, Letter_z, Letter_y, Letter_y],
         lastStableGesture := Letter_x \<rparr>"]
  by (simp add: updateGestureHistory_def initialState_def pushHistory_def
      isGestureStable_def calculateConfidence_def js_slice_def Let_def)


section \<open>The two finger-extension tests\<close>

lemma sqrt_scaled_less: "0 \<le> c \<Longrightarrow> sqrt b * c < sqrt a \<longleftrightarrow> b * c\<^sup>2 < a"
proof -
  assume c: "0 \<le> c"
  have "sqrt b * c = sqrt (b * c\<^sup>2)" using c by (simp add: real_sqrt_mult)
  then show ?thesis by simp
qed

lemma mp_isFingerExtended_sq:
  "mp_isFingerExtended tip pip mcp wrist \<longleftrightarrow>
     ((x mcp - x wrist)\<^sup>2 + (y mcp - y wrist)\<^sup>2 + (z mcp - z wrist)\<^sup>2) * (12 / 10)\<^sup>2
       < (x tip - x wrist)\<^sup>2 + (y tip - y wrist)\<^sup>2 + (z tip - z wrist)\<^sup>2"
  unfolding mp_isFingerExtended_def calculateDistance_def Let_def
  by (simp only: sqrt_scaled_less power2_eq_square)

text \<open>
  Claim C8. The test of \<open>RealTimeGestureDetector\<close> (the tip is farther from the base than
  from the middle joint) and the test of \<open>MediaPipeGestureDetector\<close> (the tip is more than
  1.2 times as far from the wrist as the base is) do not agree: some tip, base, middle joint
  and wrist pass the first and fail the second, and some fail the first and pass the second.
\<close>

theorem extension_formulas_differ:
  "(\<exists>tip base midJoint wrist.
      isFingerExtended tip base midJoint \<and> \<not> mp_isFingerExtended tip midJoint base wrist)
   \<and> (\<exists>tip base midJoint wrist.
      \<not> isFingerExtended tip base midJoint \<and> mp_isFingerExtended tip midJoint base wrist)"
proof
  let ?tip = "\<lparr>x = 58 / 100, y = 0, z = 0\<rparr>" and ?base = "\<lparr>x = 50 / 100, y = 0, z = 0\<rparr>"
  and ?mid = "\<lparr>x = 55 / 100, y = 0, z = 0\<rparr>" and ?wrist = "\<lparr>x = 0, y = 0, z = 0\<rparr>"
  have "isFingerExtended ?tip ?base ?mid"
    by (simp add: isFingerExtended_sq power2_eq_square)
  moreover have "\<not> mp_isFingerExtended ?tip ?mid ?base ?wrist"
    by (simp add: mp_isFingerExtended_sq power2_eq_square)
  ultimately have "isFingerExtended ?tip ?base ?mid \<and> \<not> mp_isFingerExtended ?tip ?mid ?base ?wrist"
    by (rule conjI)
  then show "\<exists>tip base midJoint wrist.
      isFingerExtended tip base midJoint \<and> \<not> mp_isFingerExtended tip midJoint base wrist"
    by (intro exI)
next
  let ?tip = "\<lparr>x = 70 / 100, y = 0, z = 0\<rparr>" and ?base = "\<lparr>x = 50 / 100, y = 0, z = 0\<rparr>"
  and ?mid = "\<lparr>x = 95 / 100, y = 0, z = 0\<rparr>" and ?wrist = "\<lparr>x = 0, y = 0, z = 0\<rparr>"
  have "\<not> isFingerExtended ?tip ?base ?mid"
    by (simp add: isFingerExtended_sq power2_eq_square)
  moreover have "mp_isFingerExtended ?tip ?mid ?base ?wrist"
    by (simp add: mp_isFingerExtended_sq power2_eq_square)
  ultimately have "\<not> isFingerExtended ?tip ?base ?mid \<and> mp_isFingerExtended ?tip ?mid ?base ?wrist"
    by (rule conjI)
  then show "\<exists>tip base midJoint wrist.
      \<not> isFingerExtended tip base midJoint \<and> mp_isFingerExtended tip midJoint base wrist"
    by (intro exI)
qed

section \<open>Unreachable rules\<close>

lemma detectCommonGestures_range:
  "detectCommonGestures lms \<in> {Hello, Thanks, No, Wait, Help, Idle}"
  by (simp add: detectCommonGestures_def)

lemma detectASLLetter_not_digit:
  "detectASLLetter lms \<notin> {Inr Digit_6, Inr Digit_7, Inr Digit_8, Inr Digit_9, Inr Digit_0}"
proof (cases "length lms < 21")
  case True
  then show ?thesis by (simp add: detectASLLetter_def)
next
  case False
  then show ?thesis
    unfolding detectASLLetter_def Let_def
    by (cases "isFingerExtended (lms ! 8) (lms ! 5) (lms ! 6)";
        cases "isFingerExtended (lms ! 12) (lms ! 9) (lms ! 10)";
        cases "isFingerExtended (lms ! 16) (lms ! 13) (lms ! 14)";
        cases "isFingerExtended (lms ! 20) (lms ! 17) (lms ! 18)";
        cases "isFingerExtended (lms ! 4) (lms ! 1) (lms ! 2)"; simp)
qed

text \<open>
  Claim C10. On no array of landmarks does the letter classifier return "6", "7", "8", "9" or
  "0": the rule for "4" takes every hand the rule for "6" accepts, the rule for "5" every
  hand the rules for "7", "8", "9" and "0" accept. The same holds of \<open>classifyGesture\<close>,
  whose second stage returns macro gestures only.
\<close>

theorem digits_6_to_0_unreachable:
  "detectASLLetter lms \<notin> {Inr Digit_6, Inr Digit_7, Inr Digit_8, Inr Digit_9, Inr Digit_0}
   \<and> classifyGesture lms lab \<notin> {Inr Digit_6, Inr Digit_7, Inr Digit_8, Inr Digit_9, Inr Digit_0}"
proof
  show a: "detectASLLetter lms \<notin> {Inr Digit_6, Inr Digit_7, Inr Digit_8, Inr Digit_9, Inr Digit_0}"
    by (rule detectASLLetter_not_digit)
  show "classifyGesture lms lab \<notin> {Inr Digit_6, Inr Digit_7, Inr Digit_8, Inr Digit_9, Inr Digit_0}"
  proof (cases "detectASLLetter lms")
    case (Inl e)
    then show ?thesis by (simp add: classifyGesture_def)
  next
    case (Inr aslLetter)
    show ?thesis
    proof (cases "aslLetter = Idle")
      case True
      with Inr have "classifyGesture lms lab = Inr (detectCommonGestures lms)"
        by (simp add: classifyGesture_def)
      with detectCommonGestures_range[of lms] show ?thesis by auto
    next
      case False
      with Inr have "classifyGesture lms lab = detectASLLetter lms"
        by (simp add: classifyGesture_def)
      with a show ?thesis by simp
    qed
  qed
qed

section \<open>Emission\<close>

lemma processHandResults_one:
  assumes "length ls1 = length hs1" "length ls3 \<le> length hs3"
    and "\<forall>h \<in> set (hs1 @ hs3). score h < confidenceThreshold s"
    and "confidenceThreshold s \<le> score hnd"
    and "classifyGesture lms (label hnd) = Inr g"
  shows "processHandResults clock
           \<lparr> multiHandLandmarks = Some (ls1 @ lms # ls3), multiHandedness = hs1 @ hnd # hs3 \<rparr> s =
         (fst (updateGestureHistory (clock (length ls1)) g s),
          delivered (snd (updateGestureHistory (clock (length ls1)) g s)), None)"
proof -
  have "handsLoop clock 0 (ls1 @ lms # ls3) (hs1 @ hnd # hs3) s
          = handsLoop clock (0 + length ls1) (lms # ls3) (hnd # hs3) s"
    using assms(1,3) by (intro handsLoop_skip) simp_all
  also have "\<dots> = (fst (updateGestureHistory (clock (length ls1)) g s),
          delivered (snd (updateGestureHistory (clock (length ls1)) g s)), None)"
    using assms(2-5) by (simp add: handsLoop_one del: handsLoop.simps)
  finally show ?thesis by (simp add: processHandResults_def)
qed

lemma handsLoop_thresholds:
  "confidenceThreshold (fst (handsLoop clock i ls hs s)) = confidenceThreshold s \<and>
   stabilityThreshold (fst (handsLoop clock i ls hs s)) = stabilityThreshold s"
proof (induction ls arbitrary: hs s i)
  case Nil
  then show ?case by simp
next
  case (Cons l ls)
  show ?case
  proof (cases hs)
    case Nil
    then show ?thesis by simp
  next
    case hs: (Cons h hs')
    show ?thesis
    proof (cases "score h < confidenceThreshold s")
      case True
      with Cons.IH[of "Suc i" hs' s] show ?thesis by (simp add: hs)
    next
      case False
      show ?thesis
      proof (cases "classifyGesture l (label h)")
        case (Inl e)
        with False show ?thesis by (simp add: hs)
      next
        case (Inr g)
        from Cons.IH[of "Suc i" hs' "fst (updateGestureHistory (clock i) g s)"] False Inr
        show ?thesis by (simp add: hs handsLoop_Cons update_config del: handsLoop.simps)
      qed
    qed
  qed
qed

lemma handsLoop_append:
  "length ls1 = length hs1 \<Longrightarrow> handsLoop clock i ls1 hs1 s = (sk, ps1, None) \<Longrightarrow>
     handsLoop clock i (ls1 @ ls2) (hs1 @ hs2) s =
       (fst (handsLoop clock (i + length ls1) ls2 hs2 sk),
        ps1 @ fst (snd (handsLoop clock (i + length ls1) ls2 hs2 sk)),
        snd (snd (handsLoop clock (i + length ls1) ls2 hs2 sk)))"
proof (induction ls1 hs1 arbitrary: i s ps1 rule: list_induct2)
  case Nil
  then show ?case by simp
next
  case (Cons l ls1 h hs1)
  show ?case
  proof (cases "score h < confidenceThreshold s")
    case True
    with Cons.prems have "handsLoop clock (Suc i) ls1 hs1 s = (sk, ps1, None)" by simp
    from Cons.IH[OF this] True show ?thesis by simp
  next
    case False
    show ?thesis
    proof (cases "classifyGesture l (label h)")
      case (Inl e)
      with False Cons.prems show ?thesis by simp
    next
      case (Inr g)
      let ?u = "updateGestureHistory (clock i) g s"
      let ?r = "handsLoop clock (Suc i) ls1 hs1 (fst ?u)"
      from Cons.prems False Inr
      have sk: "fst ?r = sk" and ps1: "ps1 = delivered (snd ?u) @ fst (snd ?r)"
        and e: "snd (snd ?r) = None"
        by (simp_all add: handsLoop_Cons del: handsLoop.simps)
      then have "?r = (sk, fst (snd ?r), None)" by (metis prod.collapse)
      from Cons.IH[OF this] False Inr show ?thesis
        by (simp add: handsLoop_Cons[of clock i l "ls1 @ ls2"] ps1 del: handsLoop.simps)
    qed
  qed
qed

text \<open>
  Claim C2. Take any frame and any hand of it that passes the confidence check and is reached
  by the loop, the hands before it (qualifying or not, any number) having been processed
  without an exception; let \<open>sk\<close> be the engine state when the hand is reached, \<open>ps1\<close> the
  predictions delivered for the earlier hands and \<open>g\<close> the symbol the hand is classified
  as. Then what the frame delivers is \<open>ps1\<close>, then what the one call of
  \<open>updateGestureHistory\<close> for this hand delivers, then what the later hands deliver. The call
  delivers a prediction exactly when \<open>g\<close> is stable and differs from \<open>lastStableGesture\<close>;
  then it is one prediction, of \<open>g\<close>, and \<open>lastStableGesture\<close> has become \<open>g\<close> and
  \<open>lastGestureTime\<close> the time read for that hand; and a symbol equal to \<open>lastStableGesture\<close>
  is not emitted again.
\<close>

theorem emission_iff_stable_and_changed:
  assumes "length ls1 = length hs1"
    and "handsLoop clock 0 ls1 hs1 s = (sk, ps1, None)"
    and "confidenceThreshold s \<le> score hnd"
    and "classifyGesture lms (label hnd) = Inr g"
  shows "processHandResults clock
           \<lparr> multiHandLandmarks = Some (ls1 @ lms # ls3), multiHandedness = hs1 @ hnd # hs3 \<rparr> s
         = (fst (handsLoop clock (Suc (length ls1)) ls3 hs3
                   (fst (updateGestureHistory (clock (length ls1)) g sk))),
            ps1 @ delivered (snd (updateGestureHistory (clock (length ls1)) g sk)) @
              fst (snd (handsLoop clock (Suc (length ls1)) ls3 hs3
                   (fst (updateGestureHistory (clock (length ls1)) g sk)))),
            snd (snd (handsLoop clock (Suc (length ls1)) ls3 hs3
                   (fst (updateGestureHistory (clock (length ls1)) g sk)))))
       \<and> (delivered (snd (updateGestureHistory (clock (length ls1)) g sk)) \<noteq> [] \<longleftrightarrow>
            isGestureStable (sk\<lparr> gestureHistory := pushHistory g (gestureHistory sk) \<rparr>) g \<and>
            g \<noteq> lastStableGesture sk)
       \<and> (delivered (snd (updateGestureHistory (clock (length ls1)) g sk)) \<noteq> [] \<longrightarrow>
            (\<exists>p. delivered (snd (updateGestureHistory (clock (length ls1)) g sk)) = [p] \<and>
                 gesture p = g) \<and>
            lastStableGesture (fst (updateGestureHistory (clock (length ls1)) g sk)) = g \<and>
            lastGestureTime (fst (updateGestureHistory (clock (length ls1)) g sk))
              = clock (length ls1))
       \<and> (g = lastStableGesture sk \<longrightarrow>
            delivered (snd (updateGestureHistory (clock (length ls1)) g sk)) = [])"
proof (intro conjI)
  let ?u = "updateGestureHistory (clock (length ls1)) g sk"
  have "confidenceThreshold sk = confidenceThreshold s"
    using handsLoop_thresholds[of clock 0 ls1 hs1 s] assms(2) by simp
  with assms(3) have q: "\<not> score hnd < confidenceThreshold sk" by simp
  have "handsLoop clock (0 + length ls1) (lms # ls3) (hnd # hs3) sk =
      (fst (handsLoop clock (Suc (length ls1)) ls3 hs3 (fst ?u)),
       delivered (snd ?u) @ fst (snd (handsLoop clock (Suc (length ls1)) ls3 hs3 (fst ?u))),
       snd (snd (handsLoop clock (Suc (length ls1)) ls3 hs3 (fst ?u))))"
    using q assms(4) by (simp add: handsLoop_Cons del: handsLoop.simps)
  with handsLoop_append[OF assms(1,2), of "lms # ls3" "hnd # hs3"]
  show "processHandResults clock
           \<lparr> multiHandLandmarks = Some (ls1 @ lms # ls3), multiHandedness = hs1 @ hnd # hs3 \<rparr> s
         = (fst (handsLoop clock (Suc (length ls1)) ls3 hs3 (fst ?u)),
            ps1 @ delivered (snd ?u) @
              fst (snd (handsLoop clock (Suc (length ls1)) ls3 hs3 (fst ?u))),
            snd (snd (handsLoop clock (Suc (length ls1)) ls3 hs3 (fst ?u))))"
    by (simp add: processHandResults_def)
  show "delivered (snd ?u) \<noteq> [] \<longleftrightarrow>
            isGestureStable (sk\<lparr> gestureHistory := pushHistory g (gestureHistory sk) \<rparr>) g \<and>
            g \<noteq> lastStableGesture sk"
    by (simp add: update_delivered)
  show "delivered (snd ?u) \<noteq> [] \<longrightarrow>
            (\<exists>p. delivered (snd ?u) = [p] \<and> gesture p = g) \<and>
            lastStableGesture (fst ?u) = g \<and> lastGestureTime (fst ?u) = clock (length ls1)"
    by (simp add: update_delivered update_state)
  show "g = lastStableGesture sk \<longrightarrow> delivered (snd ?u) = []"
    by (simp add: update_delivered)
qed


theorem emission_iff_stable_and_changed_witness:
  "handsLoop (frozenClock 1000) 0 [fistThumbOut] [\<lparr> label = ''Right'', score = 9 / 10 \<rparr>]
     (initialState\<lparr> gestureHistory := [Letter_c], lastStableGesture := Letter_c,
        stabilityThreshold := 1 \<rparr>)
     = (initialState\<lparr> gestureHistory := [Letter_c, Letter_a], lastStableGesture := Letter_a,
          stabilityThreshold := 1, lastGestureTime := 1000 \<rparr>,
        [\<lparr> gesture = Letter_a, confidence = 1 / 2, text' = ''A'', isStable = True \<rparr>], None)
   \<and> confidenceThreshold (initialState\<lparr> gestureHistory := [Letter_c],
        lastStableGesture := Letter_c, stabilityThreshold := 1 \<rparr>) \<le> 9 / 10
   \<and> classifyGesture closedFist ''Left'' = Inr Letter_c
   \<and> fst (snd (processHandResults (frozenClock 1000) twoHands
        (initialState\<lparr> gestureHistory := [Letter_c], lastStableGesture := Letter_c,
           stabilityThreshold := 1 \<rparr>)))
     = [\<lparr> gesture = Letter_a, confidence = 1 / 2, text' = ''A'', isStable = True \<rparr>,
        \<lparr> gesture = Letter_c, confidence = 2 / 3, text' = ''C'', isStable = True \<rparr>]
   \<and> isGestureStable (initialState\<lparr> gestureHistory := [Letter_c, Letter_a, Letter_c],
        lastStableGesture := Letter_a, stabilityThreshold := 1, lastGestureTime := 1000 \<rparr>)
        Letter_c"
proof -
  let ?s = "initialState\<lparr> gestureHistory := [Letter_c], lastStableGesture := Letter_c,
        stabilityThreshold := 1 \<rparr>"
  let ?sk = "initialState\<lparr> gestureHistory := [Letter_c, Letter_a], lastStableGesture := Letter_a,
          stabilityThreshold := 1, lastGestureTime := 1000 \<rparr>"
  let ?h0 = "\<lparr> label = ''Right'', score = 9 / 10 \<rparr>"
  let ?h1 = "\<lparr> label = ''Left'', score = 9 / 10 \<rparr>"
  have len: "length [fistThumbOut] = length [?h0]" by simp
  have pre: "handsLoop (frozenClock 1000) 0 [fistThumbOut] [?h0] ?s
     = (?sk, [\<lparr> gesture = Letter_a, confidence = 1 / 2, text' = ''A'', isStable = True \<rparr>], None)"
    by (simp add: handsLoop_Cons classify_fistThumbOut initialState_def frozenClock_def
        update_state update_delivered pushHistory_def isGestureStable_def js_slice_def
        calculateConfidence_def Let_def del: handsLoop.simps(3))
  have q: "confidenceThreshold ?s \<le> score ?h1" by (simp add: initialState_def)
  have c: "classifyGesture closedFist (label ?h1) = Inr Letter_c"
    by (rule classify_closedFist)
  from emission_iff_stable_and_changed [OF len pre q c, of "[]" "[]"] pre q c
  show ?thesis
    by (simp add: twoHands_def initialState_def frozenClock_def
        update_state update_delivered pushHistory_def isGestureStable_def js_slice_def
        calculateConfidence_def Let_def)
qed

section \<open>Scenario A\<close>

lemma processHandResults_single:
  assumes "confidenceThreshold s \<le> score hnd" "classifyGesture lms (label hnd) = Inr g"
  shows "processHandResults clock \<lparr> multiHandLandmarks = Some [lms], multiHandedness = [hnd] \<rparr> s =
         (fst (updateGestureHistory (clock 0) g s),
          delivered (snd (updateGestureHistory (clock 0) g s)), None)"
  using processHandResults_one [of "[]" "[]" "[]" "[]" s hnd lms g clock] assms by simp

lemmas filter_eval =
  update_config update_state update_delivered pushHistory_def isGestureStable_def js_slice_def
  calculateConfidence_def Let_def

text \<open>
  Claim C9. From the initial state (stability threshold 3), five frames in a row that each
  show one hand passing the confidence check, of 21 landmarks, with the thumb extended and
  the other four fingers not: nothing is emitted in frames 1 and 2, exactly one prediction,
  of "a", in frame 3, and nothing in frames 4 and 5, whatever the clock shows.
\<close>

theorem scenario_A:
  assumes len: "length lms = 21"
    and thumb: "isFingerExtended (lms ! 4) (lms ! 1) (lms ! 2)"
    and index: "\<not> isFingerExtended (lms ! 8) (lms ! 5) (lms ! 6)"
    and middle: "\<not> isFingerExtended (lms ! 12) (lms ! 9) (lms ! 10)"
    and ring: "\<not> isFingerExtended (lms ! 16) (lms ! 13) (lms ! 14)"
    and pinky: "\<not> isFingerExtended (lms ! 20) (lms ! 17) (lms ! 18)"
    and qual: "confidenceThreshold initialState \<le> score hnd"
  shows "feedFrames initialState
           [(clock1, \<lparr> multiHandLandmarks = Some [lms], multiHandedness = [hnd] \<rparr>),
            (clock2, \<lparr> multiHandLandmarks = Some [lms], multiHandedness = [hnd] \<rparr>),
            (clock3, \<lparr> multiHandLandmarks = Some [lms], multiHandedness = [hnd] \<rparr>),
            (clock4, \<lparr> multiHandLandmarks = Some [lms], multiHandedness = [hnd] \<rparr>),
            (clock5, \<lparr> multiHandLandmarks = Some [lms], multiHandedness = [hnd] \<rparr>)]
         = [[], [],
            [\<lparr> gesture = Letter_a, confidence = 1, text' = ''A'', isStable = True \<rparr>],
            [], []]"
proof -
  have "detectASLLetter lms = Inr Letter_a"
    using len thumb index middle ring pinky by (rule detectASLLetter_a)
  then have c: "classifyGesture lms (label hnd) = Inr Letter_a"
    by (simp add: classifyGesture_def)
  have step: "processHandResults clock \<lparr> multiHandLandmarks = Some [lms], multiHandedness = [hnd] \<rparr> s =
         (fst (updateGestureHistory (clock 0) Letter_a s),
          delivered (snd (updateGestureHistory (clock 0) Letter_a s)), None)"
    if "confidenceThreshold s = 7 / 10" for clock s
    using that qual c by (intro processHandResults_single) (simp_all add: initialState_def)
  show ?thesis
    by (simp add: step filter_eval initialState_def)
qed


lemma fistThumbOut_flags:
  "length fistThumbOut = 21"
  "isFingerExtended (fistThumbOut ! 4) (fistThumbOut ! 1) (fistThumbOut ! 2)"
  "\<not> isFingerExtended (fistThumbOut ! 8) (fistThumbOut ! 5) (fistThumbOut ! 6)"
  "\<not> isFingerExtended (fistThumbOut ! 12) (fistThumbOut ! 9) (fistThumbOut ! 10)"
  "\<not> isFingerExtended (fistThumbOut ! 16) (fistThumbOut ! 13) (fistThumbOut ! 14)"
  "\<not> isFingerExtended (fistThumbOut ! 20) (fistThumbOut ! 17) (fistThumbOut ! 18)"
  by (simp_all add: fistThumbOut_def isFingerExtended_sq power2_eq_square)

theorem scenario_A_witness:
  "length fistThumbOut = 21
   \<and> confidenceThreshold initialState \<le> 9 / 10
   \<and> feedFrames initialState
        [(frozenClock 1000, oneHand fistThumbOut (9 / 10)),
         (frozenClock 1033, oneHand fistThumbOut (9 / 10)),
         (frozenClock 1066, oneHand fistThumbOut (9 / 10)),
         (frozenClock 1100, oneHand fistThumbOut (9 / 10)),
         (frozenClock 1133, oneHand fistThumbOut (9 / 10))]
       = [[], [],
          [\<lparr> gesture = Letter_a, confidence = 1, text' = ''A'', isStable = True \<rparr>],
          [], []]"
proof -
  have q: "confidenceThreshold initialState \<le> score \<lparr> label = ''Right'', score = 9 / 10 \<rparr>"
    by (simp add: initialState_def)
  from scenario_A [OF fistThumbOut_flags q, of "frozenClock 1000" "frozenClock 1033"
      "frozenClock 1066" "frozenClock 1100" "frozenClock 1133"] q fistThumbOut_flags(1)
  show ?thesis by (simp add: oneHand_def)
qed

section \<open>Frames without a qualifying hand\<close>

lemma afterThreeFists_eq:
  "afterThreeFists =
     initialState\<lparr> gestureHistory := [Letter_a, Letter_a, Letter_a],
       lastStableGesture := Letter_a, lastGestureTime := 1066 \<rparr>"
proof -
  have step: "processHandResults clock (oneHand fistThumbOut (9 / 10)) s =
         (fst (updateGestureHistory (clock 0) Letter_a s),
          delivered (snd (updateGestureHistory (clock 0) Letter_a s)), None)"
    if "confidenceThreshold s = 7 / 10" for clock s
    unfolding oneHand_def using that
    by (intro processHandResults_single) (simp_all add: classify_fistThumbOut)
  show ?thesis
    by (simp add: afterThreeFists_def step filter_eval initialState_def frozenClock_def)
qed

text \<open>
  Claim C4 says that a frame in which no hand reaches the confidence threshold resets the
  engine. It does not when the frame has hands: after three frames of the open-thumb fist the
  buffer is a, a, a and the last stable symbol is "a", and a fourth frame showing the same hand
  with score 0.5 leaves both as they are.
\<close>

theorem low_confidence_no_reset_counterexample:
  "score \<lparr> label = ''Right'', score = 1 / 2 \<rparr> < confidenceThreshold afterThreeFists
   \<and> gestureHistory (fst (processHandResults (frozenClock 4000) (oneHand fistThumbOut (1 / 2))
        afterThreeFists)) = [Letter_a, Letter_a, Letter_a]
   \<and> lastStableGesture (fst (processHandResults (frozenClock 4000) (oneHand fistThumbOut (1 / 2))
        afterThreeFists)) = Letter_a
   \<and> gestureHistory (fst (processHandResults (frozenClock 4000) (oneHand fistThumbOut (1 / 2))
        afterThreeFists)) \<noteq> []
   \<and> lastStableGesture (fst (processHandResults (frozenClock 4000) (oneHand fistThumbOut (1 / 2))
        afterThreeFists)) \<noteq> Idle"
  by (simp add: afterThreeFists_eq processHandResults_def oneHand_def initialState_def)

text \<open>
  Claim C4, amended. A frame in which the tracker reports no hand (the list of hands is
  absent or empty) resets the engine: the buffer becomes empty, the last stable symbol idle,
  nothing is emitted, and the other fields keep their values. A frame that has hands, all
  of them below the confidence threshold, emits nothing and leaves the state as it was.
\<close>

theorem reset_exactly_without_hands:
  "(multiHandLandmarks results = None \<or> multiHandLandmarks results = Some [] \<longrightarrow>
      processHandResults clock results s =
        (s\<lparr> gestureHistory := [], lastStableGesture := Idle \<rparr>, [], None))
   \<and> ((\<exists>ls. multiHandLandmarks results = Some ls \<and> ls \<noteq> []) \<and>
       (\<forall>h \<in> set (multiHandedness results). score h < confidenceThreshold s) \<longrightarrow>
      fst (processHandResults clock results s) = s \<and>
      fst (snd (processHandResults clock results s)) = [])"
proof (intro conjI impI)
  assume "multiHandLandmarks results = None \<or> multiHandLandmarks results = Some []"
  then show "processHandResults clock results s =
        (s\<lparr> gestureHistory := [], lastStableGesture := Idle \<rparr>, [], None)"
    by (auto simp: processHandResults_def resetToIdle_def)
next
  assume a: "(\<exists>ls. multiHandLandmarks results = Some ls \<and> ls \<noteq> []) \<and>
       (\<forall>h \<in> set (multiHandedness results). score h < confidenceThreshold s)"
  then obtain ls where ls: "multiHandLandmarks results = Some ls" "ls \<noteq> []" by blast
  then have p: "processHandResults clock results s = handsLoop clock 0 ls (multiHandedness results) s"
    by (simp add: processHandResults_def)
  from a have low: "\<forall>h \<in> set (multiHandedness results). score h < confidenceThreshold s" by simp
  from handsLoop_all_low[OF low, of clock 0 ls]
  show "fst (processHandResults clock results s) = s"
    and "fst (snd (processHandResults clock results s)) = []"
    by (simp_all add: p)
qed

theorem reset_exactly_without_hands_witness:
  "processHandResults (frozenClock 4000) \<lparr> multiHandLandmarks = Some [], multiHandedness = [] \<rparr>
      afterThreeFists
     = (afterThreeFists\<lparr> gestureHistory := [], lastStableGesture := Idle \<rparr>, [], None)
   \<and> processHandResults (frozenClock 4000) \<lparr> multiHandLandmarks = None, multiHandedness = [] \<rparr>
      afterThreeFists
     = (afterThreeFists\<lparr> gestureHistory := [], lastStableGesture := Idle \<rparr>, [], None)
   \<and> score \<lparr> label = ''Right'', score = 1 / 2 \<rparr> < confidenceThreshold afterThreeFists
   \<and> fst (processHandResults (frozenClock 4000) (oneHand fistThumbOut (1 / 2)) afterThreeFists)
       = afterThreeFists
   \<and> fst (snd (processHandResults (frozenClock 4000) (oneHand fistThumbOut (1 / 2))
        afterThreeFists)) = []"
  using
    reset_exactly_without_hands [of "\<lparr> multiHandLandmarks = Some [], multiHandedness = [] \<rparr>"
      "frozenClock 4000" afterThreeFists]
    reset_exactly_without_hands [of "\<lparr> multiHandLandmarks = None, multiHandedness = [] \<rparr>"
      "frozenClock 4000" afterThreeFists]
    reset_exactly_without_hands [of "oneHand fistThumbOut (1 / 2)"
      "frozenClock 4000" afterThreeFists]
  by (simp add: oneHand_def afterThreeFists_eq initialState_def)


section \<open>Predictions per frame\<close>

lemma twoHands_run:
  "confidenceThreshold s = 7 / 10 \<Longrightarrow>
   processHandResults clock twoHands s =
     (fst (updateGestureHistory (clock 1) Letter_c (fst (updateGestureHistory (clock 0) Letter_a s))),
      delivered (snd (updateGestureHistory (clock 0) Letter_a s)) @
      delivered (snd (updateGestureHistory (clock 1) Letter_c
                        (fst (updateGestureHistory (clock 0) Letter_a s)))),
      None)"
  by (simp add: processHandResults_def twoHands_def handsLoop_Cons classify_fistThumbOut
      classify_closedFist update_config del: handsLoop.simps(3))

text \<open>
  Claim C6 says that a frame delivers at most one prediction. With the stability threshold
  set to 1 a frame with two well-tracked hands of different shapes delivers two: "a" for the
  first hand and "c" for the second.
\<close>

theorem two_predictions_in_one_frame_counterexample:
  "stabilityThreshold (updateConfig None (Some 1) None initialState) = 1
   \<and> fst (snd (processHandResults (frozenClock 1000) twoHands
               (updateConfig None (Some 1) None initialState)))
     = [\<lparr> gesture = Letter_a, confidence = 1, text' = ''A'', isStable = True \<rparr>,
        \<lparr> gesture = Letter_c, confidence = 1 / 2, text' = ''C'', isStable = True \<rparr>]
   \<and> length (fst (snd (processHandResults (frozenClock 1000) twoHands
               (updateConfig None (Some 1) None initialState)))) = 2"
  by (simp add: twoHands_run updateConfig_def initialState_def filter_eval)

text \<open>
  Claim C6, amended. A frame in which the number of hands that pass the confidence check is
  at most \<open>stabilityThreshold\<close> delivers at most one prediction; so does every frame of the
  tracker as configured (at most 2 hands) under the default threshold 3.
\<close>

theorem at_most_one_prediction_per_frame:
  "int (qualifyingHands s results) \<le> stabilityThreshold s \<Longrightarrow>
     length (fst (snd (processHandResults clock results s))) \<le> 1"
proof (cases "multiHandLandmarks results")
  case None
  then show ?thesis by (simp add: processHandResults_def)
next
  case (Some ls)
  assume "int (qualifyingHands s results) \<le> stabilityThreshold s"
  with Some have "int (length (filter (\<lambda>h. \<not> score h < confidenceThreshold s)
      (take (length ls) (multiHandedness results)))) \<le> stabilityThreshold s"
    by (simp add: qualifyingHands_def)
  then have "length (fst (snd (handsLoop clock 0 ls (multiHandedness results) s))) \<le> 1"
    by (rule handsLoop_at_most_one)
  with Some show ?thesis by (simp add: processHandResults_def)
qed

theorem at_most_one_prediction_per_frame_witness:
  "int (qualifyingHands (initialState\<lparr> gestureHistory := [Letter_a, Letter_a] \<rparr>) twoHands) = 2
   \<and> stabilityThreshold (initialState\<lparr> gestureHistory := [Letter_a, Letter_a] \<rparr>) = 3
   \<and> fst (snd (processHandResults (frozenClock 1000) twoHands
               (initialState\<lparr> gestureHistory := [Letter_a, Letter_a] \<rparr>)))
     = [\<lparr> gesture = Letter_a, confidence = 1, text' = ''A'', isStable = True \<rparr>]
   \<and> length (fst (snd (processHandResults (frozenClock 1000) twoHands
               (initialState\<lparr> gestureHistory := [Letter_a, Letter_a] \<rparr>)))) \<le> 1"
proof -
  have q: "int (qualifyingHands (initialState\<lparr> gestureHistory := [Letter_a, Letter_a] \<rparr>) twoHands) = 2"
    by (simp add: qualifyingHands_def twoHands_def initialState_def)
  have t: "stabilityThreshold (initialState\<lparr> gestureHistory := [Letter_a, Letter_a] \<rparr>) = 3"
    by (simp add: initialState_def)
  have r: "fst (snd (processHandResults (frozenClock 1000) twoHands
               (initialState\<lparr> gestureHistory := [Letter_a, Letter_a] \<rparr>)))
     = [\<lparr> gesture = Letter_a, confidence = 1, text' = ''A'', isStable = True \<rparr>]"
    by (simp add: twoHands_run initialState_def filter_eval)
  have "int (qualifyingHands (initialState\<lparr> gestureHistory := [Letter_a, Letter_a] \<rparr>) twoHands)
      \<le> stabilityThreshold (initialState\<lparr> gestureHistory := [Letter_a, Letter_a] \<rparr>)"
    using q t by simp
  from at_most_one_prediction_per_frame [OF this, of "frozenClock 1000"] q t r
  show ?thesis by simp
qed

section \<open>Capacity of the buffer\<close>

lemma handsLoop_history_bound:
  "length (gestureHistory s) \<le> 5 \<Longrightarrow>
     length (gestureHistory (fst (handsLoop clock i ls hs s))) \<le> 5"
proof (induction ls arbitrary: hs s i)
  case Nil
  then show ?case by simp
next
  case (Cons l ls)
  show ?case
  proof (cases hs)
    case Nil
    with Cons.prems show ?thesis by simp
  next
    case hs: (Cons h hs')
    show ?thesis
    proof (cases "score h < confidenceThreshold s")
      case True
      with Cons.IH[OF Cons.prems] show ?thesis by (simp add: hs)
    next
      case False
      show ?thesis
      proof (cases "classifyGesture l (label h)")
        case (Inl e)
        with False Cons.prems show ?thesis by (simp add: hs)
      next
        case (Inr g)
        have "length (gestureHistory (fst (updateGestureHistory (clock i) g s))) \<le> 5"
          using Cons.prems by (simp add: update_config length_pushHistory)
        from Cons.IH[OF this] False Inr show ?thesis
          by (simp add: hs handsLoop_Cons del: handsLoop.simps)
      qed
    qed
  qed
qed

lemma processHandResults_history_bound:
  "length (gestureHistory s) \<le> 5 \<Longrightarrow>
     length (gestureHistory (fst (processHandResults clock results s))) \<le> 5"
  by (simp add: processHandResults_def resetToIdle_def handsLoop_history_bound
      split: option.splits)

lemma stateAfter_history_bound:
  "length (gestureHistory s) \<le> 5 \<Longrightarrow> length (gestureHistory (stateAfter s fs)) \<le> 5"
proof (induction fs arbitrary: s)
  case Nil
  then show ?case by simp
next
  case (Cons f fs)
  obtain clock results where f: "f = (clock, results)" by (cases f)
  have "length (gestureHistory (fst (processHandResults clock results s))) \<le> 5"
    using Cons.prems by (rule processHandResults_history_bound)
  from Cons.IH[OF this] show ?case by (simp add: f case_prod_unfold)
qed

text \<open>
  Claim C7. The buffer holds at most 5 symbols and pushing keeps it so: a push onto a buffer
  of at most 5 entries leaves at most 5; a push onto a full buffer drops exactly the oldest
  entry and puts the new symbol at the recent end, the others keeping their order; a push
  onto a shorter buffer only appends. Hence, whatever frames the engine is fed from its initial
  state, its buffer never holds more than 5 symbols.
\<close>

theorem pushHistory_capacity:
  "(length h \<le> 5 \<longrightarrow> length (pushHistory g h) \<le> 5)
   \<and> (length h = 5 \<longrightarrow> pushHistory g h = tl h @ [g])
   \<and> (length h < 5 \<longrightarrow> pushHistory g h = h @ [g])
   \<and> length (gestureHistory (stateAfter initialState fs)) \<le> 5"
proof -
  have "length (gestureHistory (stateAfter initialState fs)) \<le> 5"
    by (rule stateAfter_history_bound) (simp add: initialState_def)
  moreover have "(length h \<le> 5 \<longrightarrow> length (pushHistory g h) \<le> 5)
   \<and> (length h = 5 \<longrightarrow> pushHistory g h = tl h @ [g])
   \<and> (length h < 5 \<longrightarrow> pushHistory g h = h @ [g])"
    by (cases h) (auto simp: pushHistory_def Let_def)
  ultimately show ?thesis by simp
qed

theorem pushHistory_capacity_witness:
  "length [Letter_b, Letter_c, Letter_d, Letter_e, Letter_f] = 5
   \<and> pushHistory Letter_a [Letter_b, Letter_c, Letter_d, Letter_e, Letter_f]
       = [Letter_c, Letter_d, Letter_e, Letter_f, Letter_a]
   \<and> length [Letter_b, Letter_c] < 5
   \<and> pushHistory Letter_a [Letter_b, Letter_c] = [Letter_b, Letter_c, Letter_a]
   \<and> length (gestureHistory afterThreeFists) \<le> 5"
  using
    pushHistory_capacity [of "[Letter_b, Letter_c, Letter_d, Letter_e, Letter_f]" Letter_a
      "[(frozenClock 1000, oneHand fistThumbOut (9 / 10)),
        (frozenClock 1033, oneHand fistThumbOut (9 / 10)),
        (frozenClock 1066, oneHand fistThumbOut (9 / 10))]"]
    pushHistory_capacity [of "[Letter_b, Letter_c]" Letter_a "[]"]
  by (simp add: afterThreeFists_def)

end
